theory Spec2Isabelle
  imports Main
begin

section \<open>JavaScript values, errors and the console\<close>

text \<open>
  The service is written in TypeScript; the fields \<open>value\<close> and \<open>options\<close> of an
  operation have type \<open>any\<close>. A value is undefined, null, a boolean, a number (the
  integer-valued ones are modelled), a string, an array or an object (its own
  properties, in insertion order).
\<close>

datatype jsval =
    JUndefined
  | JNull
  | JBool bool
  | JNum int
  | JStr string
  | JArr "jsval list"
  | JObj "(string \<times> jsval) list"

text \<open>
  What a handler can throw: a \<open>TypeError\<close> of the language (a property read on
  undefined or null, a call of something that is no function), or the rejection of a
  request by the host (\<open>context.sync()\<close> rejects with the host's error code).
\<close>

datatype error =
    TypeError string
  | HostError string

text \<open>What the service writes to the console; nothing reads it back.\<close>

datatype console =
    ConsoleWarn string
  | ConsoleError string error

text \<open>Truthiness, as \<open>if (x)\<close> and \<open>x || y\<close> test it.\<close>

fun truthy :: "jsval \<Rightarrow> bool" where
  "truthy JUndefined = False"
| "truthy JNull = False"
| "truthy (JBool b) = b"
| "truthy (JNum n) = (n \<noteq> 0)"
| "truthy (JStr s) = (s \<noteq> [])"
| "truthy (JArr xs) = True"
| "truthy (JObj kvs) = True"

definition js_or :: "jsval \<Rightarrow> jsval \<Rightarrow> jsval" where
  "js_or a b = (if truthy a then a else b)"

text \<open>
  The property read \<open>o.k\<close>: a TypeError on undefined and null, the property's value on
  an object that has it, undefined otherwise.
\<close>

fun getProp :: "jsval \<Rightarrow> string \<Rightarrow> error + jsval" where
  "getProp JUndefined k = Inl (TypeError k)"
| "getProp JNull k = Inl (TypeError k)"
| "getProp (JObj kvs) k = (case map_of kvs k of Some v \<Rightarrow> Inr v | None \<Rightarrow> Inr JUndefined)"
| "getProp v k = Inr JUndefined"

text \<open>The optional read \<open>o?.k\<close>: undefined where \<open>o.k\<close> would throw.\<close>

definition getPropOpt :: "jsval \<Rightarrow> string \<Rightarrow> jsval" where
  "getPropOpt v k = (case getProp v k of Inl e \<Rightarrow> JUndefined | Inr x \<Rightarrow> x)"

text \<open>Sequencing of steps that may throw: the first error ends the sequence.\<close>

definition andThen :: "'e + 'a \<Rightarrow> ('a \<Rightarrow> 'e + 'b) \<Rightarrow> 'e + 'b" where
  "andThen m f = (case m of Inl e \<Rightarrow> Inl e | Inr x \<Rightarrow> f x)"

text \<open>A step that runs only when its guard is truthy, as \<open>if (g) { ... }\<close>.\<close>

definition whenTruthy :: "jsval \<Rightarrow> ('d \<Rightarrow> error + 'd) \<Rightarrow> 'd \<Rightarrow> error + 'd" where
  "whenTruthy g step d = (if truthy g then step d else Inr d)"

section \<open>Operations and the host's document-mutation surface\<close>

text \<open>
  \<open>ExcelOperation\<close> of the source: \<open>{ type, target, value?, options? }\<close>. The fields
  are named \<open>optype\<close>, \<open>target\<close>, \<open>opvalue\<close> and \<open>options\<close> here; an absent optional
  field is \<open>JUndefined\<close>.
\<close>

record ExcelOperation =
  optype :: string
  target :: string
  opvalue :: jsval
  options :: jsval

datatype shift = ShiftDown | ShiftRight | ShiftUp | ShiftLeft

text \<open>
  The sub-objects of \<open>range.format\<close> that \<open>formatRange\<close> loads and copies, each an
  object: its properties. The copy \<open>{ ...range.format.font }\<close> of such an object is the
  list of its properties as loaded (spec section 4.1: a shallow copy).
\<close>

record RangeFormat =
  font :: "(string \<times> jsval) list"
  fill :: "(string \<times> jsval) list"
  borders :: "(string \<times> jsval) list"

text \<open>
  Modelled from the spec: the host's document-mutation surface (spec section 6), the
  Office.js API that every handler calls inside \<open>Excel.run\<close>. It is not code of the
  repository, so it is a parameter of the model: a record of requests over a document
  type \<open>'d\<close>, each named for the Office.js call it stands for, each addressed to the
  active worksheet as the handlers address it. A request either yields its result or
  is rejected with the host's error. Range addresses stay strings: resolving them is
  the host's (\<open>worksheet.getRange(target)\<close>), and an address that does not resolve
  makes the request fail.
\<close>

record 'd surface =
  rangeLoadValues :: "string \<Rightarrow> 'd \<Rightarrow> error + jsval"
  rangeLoadFormulas :: "string \<Rightarrow> 'd \<Rightarrow> error + jsval"
  rangeLoadFormat :: "string \<Rightarrow> 'd \<Rightarrow> error + RangeFormat"
  rangeSetValues :: "string \<Rightarrow> jsval \<Rightarrow> 'd \<Rightarrow> error + 'd"
  rangeSetFormulas :: "string \<Rightarrow> jsval \<Rightarrow> 'd \<Rightarrow> error + 'd"
  rangeAssignFont :: "string \<Rightarrow> jsval \<Rightarrow> 'd \<Rightarrow> error + 'd"
  rangeAssignFill :: "string \<Rightarrow> jsval \<Rightarrow> 'd \<Rightarrow> error + 'd"
  rangeAssignBorders :: "string \<Rightarrow> jsval \<Rightarrow> 'd \<Rightarrow> error + 'd"
  rangeSetNumberFormat :: "string \<Rightarrow> jsval \<Rightarrow> 'd \<Rightarrow> error + 'd"
  rangeInsert :: "string \<Rightarrow> shift \<Rightarrow> 'd \<Rightarrow> error + 'd"
  rangeDelete :: "string \<Rightarrow> shift \<Rightarrow> 'd \<Rightarrow> error + 'd"
  chartsAdd :: "jsval \<Rightarrow> string \<Rightarrow> 'd \<Rightarrow> error + ('d \<times> string)"
  chartSetTitle :: "string \<Rightarrow> jsval \<Rightarrow> 'd \<Rightarrow> error + 'd"
  chartSetPosition :: "string \<Rightarrow> jsval \<Rightarrow> jsval \<Rightarrow> jsval \<Rightarrow> jsval \<Rightarrow> 'd \<Rightarrow> error + 'd"
  chartDelete :: "string \<Rightarrow> 'd \<Rightarrow> error + 'd"
  conditionalFormatsAdd :: "string \<Rightarrow> jsval \<Rightarrow> (jsval \<times> jsval) option \<Rightarrow> 'd \<Rightarrow> error + 'd"
  conditionalFormatsClearAll :: "string \<Rightarrow> 'd \<Rightarrow> error + 'd"
  sortApply :: "string \<Rightarrow> jsval \<Rightarrow> jsval \<Rightarrow> 'd \<Rightarrow> error + 'd"
  autoFilterApply :: "string \<Rightarrow> 'd \<Rightarrow> error + 'd"
  autoFilterApplyCriteria :: "string \<Rightarrow> jsval \<Rightarrow> jsval \<Rightarrow> 'd \<Rightarrow> error + 'd"
  autoFilterRemove :: "string \<Rightarrow> 'd \<Rightarrow> error + 'd"
  pivotTablesAdd :: "jsval \<Rightarrow> string \<Rightarrow> jsval \<Rightarrow> 'd \<Rightarrow> error + ('d \<times> string)"
  pivotAddRowHierarchy :: "string \<Rightarrow> jsval \<Rightarrow> 'd \<Rightarrow> error + 'd"
  pivotAddDataHierarchy :: "string \<Rightarrow> jsval \<Rightarrow> 'd \<Rightarrow> error + 'd"
  pivotTableDelete :: "string \<Rightarrow> 'd \<Rightarrow> error + 'd"
  worksheetSetName :: "jsval \<Rightarrow> jsval \<Rightarrow> 'd \<Rightarrow> error + 'd"
  worksheetsAdd :: "jsval \<Rightarrow> jsval \<Rightarrow> 'd \<Rightarrow> error + 'd"
  worksheetDelete :: "jsval \<Rightarrow> 'd \<Rightarrow> error + 'd"

text \<open>
  Reading guide for the requests that fold several Office.js statements into one:
  \<^item> \<open>chartsAdd type range\<close> is \<open>worksheet.charts.add(type, range, "Auto")\<close> and yields the
    new chart's \<open>id\<close>; \<open>chartSetTitle id\<close> and \<open>chartSetPosition id left top width height\<close>
    are the assignments to \<open>chart.title.text\<close> and to \<open>chart.left\<close>, \<open>top\<close>, \<open>width\<close>,
    \<open>height\<close>;
  \<^item> \<open>conditionalFormatsAdd range type cv\<close> is \<open>range.conditionalFormats.add(...)\<close>; \<open>cv\<close> is
    the fill colour and the rule assigned to \<open>conditionalFormat.cellValue\<close>, when they are;
  \<^item> \<open>autoFilterApplyCriteria range i c\<close> is
    \<open>range.autoFilter.filters.getItemAt(i).apply(c)\<close>;
  \<^item> \<open>pivotTablesAdd name source destination\<close> yields the new pivot table's \<open>id\<close>;
    \<open>pivotAddRowHierarchy id field\<close> is
    \<open>pivotTable.rowHierarchies.add(pivotTable.hierarchies.getItem(field))\<close>;
  \<^item> \<open>worksheetSetName current new\<close> is \<open>worksheets.getItem(current).name = new\<close>;
  \<^item> \<open>worksheetsAdd name tabColor\<close> is \<open>worksheets.add(name)\<close>, followed by the assignment
    to \<open>worksheet.tabColor\<close> when \<open>tabColor\<close> is truthy.

  Every handler queues its writes and commits them with one \<open>context.sync()\<close>. A handler
  whose request is rejected yields the error alone: the document stays as it was when
  the handler was entered (spec section 7: the step that failed never applied at all).
\<close>

section \<open>Inverses\<close>

text \<open>
  A handler returns a closure \<open>async () => { ... }\<close> over what it captured. The closures
  are modelled as data, one constructor per handler, holding the captured variables;
  \<open>runInverse\<close> below is the closures' bodies.
\<close>

datatype inverse =
    UndoSetCellValue string jsval
  | UndoSetFormula string jsval
  | UndoFormatRange string RangeFormat
  | UndoInsertRows string
  | UndoInsertColumns string
  | UndoDeleteRows string jsval jsval
  | UndoDeleteColumns string jsval jsval
  | UndoCreateChart string
  | UndoConditionalFormatting string
  | UndoSortRange string jsval
  | UndoApplyFilter string
  | UndoCreatePivotTable string
  | UndoRenameSheet jsval jsval
  | UndoCreateSheet jsval

section \<open>Handlers\<close>

text \<open>
  Each handler is \<open>Excel.run(async (context) => { ... })\<close>: it loads what its inverse
  needs, queues the mutation, commits, and returns the inverse. A handler's result is
  the error it throws, or the document after it and its inverse.

  Queued requests reach the host at \<open>context.sync()\<close>, in the order queued. So an
  error of the language, thrown by a statement while requests are being queued, comes
  before any rejection of those requests; the definitions put the statements that can
  throw before the requests of the same commit.
\<close>

definition setCellValue ::
  "'d surface \<Rightarrow> string \<Rightarrow> jsval \<Rightarrow> jsval \<Rightarrow> 'd \<Rightarrow> error + ('d \<times> inverse)" where
  "setCellValue S tgt v opts d =
     andThen (rangeLoadValues S tgt d) (\<lambda>originalValues.
     andThen (rangeSetValues S tgt (case v of JArr rows \<Rightarrow> v | _ \<Rightarrow> JArr [JArr [v]]) d) (\<lambda>d'.
     Inr (d', UndoSetCellValue tgt originalValues)))"

definition setFormula ::
  "'d surface \<Rightarrow> string \<Rightarrow> jsval \<Rightarrow> jsval \<Rightarrow> 'd \<Rightarrow> error + ('d \<times> inverse)" where
  "setFormula S tgt formula opts d =
     andThen (rangeLoadFormulas S tgt d) (\<lambda>originalFormulas.
     andThen (rangeSetFormulas S tgt (JArr [JArr [formula]]) d) (\<lambda>d'.
     Inr (d', UndoSetFormula tgt originalFormulas)))"

definition formatRange ::
  "'d surface \<Rightarrow> string \<Rightarrow> jsval \<Rightarrow> 'd \<Rightarrow> error + ('d \<times> inverse)" where
  "formatRange S tgt opts d =
     andThen (rangeLoadFormat S tgt d) (\<lambda>loaded.
     let originalFormat = \<lparr> font = font loaded, fill = fill loaded, borders = borders loaded \<rparr> in
     andThen (getProp opts ''font'') (\<lambda>oFont.
     andThen (getProp opts ''fill'') (\<lambda>oFill.
     andThen (getProp opts ''borders'') (\<lambda>oBorders.
     andThen (getProp opts ''numberFormat'') (\<lambda>oNumberFormat.
     andThen (whenTruthy oFont (rangeAssignFont S tgt oFont) d) (\<lambda>d1.
     andThen (whenTruthy oFill (rangeAssignFill S tgt oFill) d1) (\<lambda>d2.
     andThen (whenTruthy oBorders (rangeAssignBorders S tgt oBorders) d2) (\<lambda>d3.
     andThen (whenTruthy oNumberFormat (rangeSetNumberFormat S tgt oNumberFormat) d3) (\<lambda>d4.
     Inr (d4, UndoFormatRange tgt originalFormat))))))))))"

text \<open>\<open>insertRows\<close> and \<open>insertColumns\<close> take \<open>count\<close> and never read it.\<close>

definition insertRows ::
  "'d surface \<Rightarrow> string \<Rightarrow> jsval \<Rightarrow> 'd \<Rightarrow> error + ('d \<times> inverse)" where
  "insertRows S tgt count d =
     andThen (rangeInsert S tgt ShiftDown d) (\<lambda>d'.
     Inr (d', UndoInsertRows tgt))"

definition insertColumns ::
  "'d surface \<Rightarrow> string \<Rightarrow> jsval \<Rightarrow> 'd \<Rightarrow> error + ('d \<times> inverse)" where
  "insertColumns S tgt count d =
     andThen (rangeInsert S tgt ShiftRight d) (\<lambda>d'.
     Inr (d', UndoInsertColumns tgt))"

text \<open>
  \<open>deleteRows\<close> loads \<open>"values, formulas, format"\<close> and keeps all three in \<open>backupData\<close>;
  its inverse reads \<open>backupData.values\<close> and \<open>backupData.formulas\<close> only, so these two are
  what the inverse holds.
\<close>

definition deleteRows ::
  "'d surface \<Rightarrow> string \<Rightarrow> 'd \<Rightarrow> error + ('d \<times> inverse)" where
  "deleteRows S tgt d =
     andThen (rangeLoadValues S tgt d) (\<lambda>values.
     andThen (rangeLoadFormulas S tgt d) (\<lambda>formulas.
     andThen (rangeLoadFormat S tgt d) (\<lambda>fmt.
     andThen (rangeDelete S tgt ShiftUp d) (\<lambda>d'.
     Inr (d', UndoDeleteRows tgt values formulas)))))"

definition deleteColumns ::
  "'d surface \<Rightarrow> string \<Rightarrow> 'd \<Rightarrow> error + ('d \<times> inverse)" where
  "deleteColumns S tgt d =
     andThen (rangeLoadValues S tgt d) (\<lambda>values.
     andThen (rangeLoadFormulas S tgt d) (\<lambda>formulas.
     andThen (rangeDelete S tgt ShiftLeft d) (\<lambda>d'.
     Inr (d', UndoDeleteColumns tgt values formulas))))"

text \<open>
  \<open>createChart\<close>: the chart's position is assigned when \<open>options.position\<close> is truthy,
  each of its four numbers with its default.
\<close>

definition chartPositionOf :: "jsval \<Rightarrow> error + (jsval \<times> jsval \<times> jsval \<times> jsval) option" where
  "chartPositionOf oPosition =
     (if truthy oPosition
      then andThen (getProp oPosition ''left'') (\<lambda>pLeft.
           andThen (getProp oPosition ''top'') (\<lambda>pTop.
           andThen (getProp oPosition ''width'') (\<lambda>pWidth.
           andThen (getProp oPosition ''height'') (\<lambda>pHeight.
           Inr (Some (js_or pLeft (JNum 100), js_or pTop (JNum 100),
                      js_or pWidth (JNum 400), js_or pHeight (JNum 300)))))))
      else Inr None)"

definition createChart ::
  "'d surface \<Rightarrow> string \<Rightarrow> jsval \<Rightarrow> 'd \<Rightarrow> error + ('d \<times> inverse)" where
  "createChart S tgt opts d =
     andThen (getProp opts ''type'') (\<lambda>oType.
     let chartType = js_or oType (JStr ''ColumnClustered'') in
     andThen (getProp opts ''title'') (\<lambda>oTitle.
     andThen (getProp opts ''position'') (\<lambda>oPosition.
     andThen (chartPositionOf oPosition) (\<lambda>position.
     andThen (chartsAdd S chartType tgt d) (\<lambda>(d1, chartId).
     andThen (whenTruthy oTitle (chartSetTitle S chartId oTitle) d1) (\<lambda>d2.
     andThen (case position of
                None \<Rightarrow> Inr d2
              | Some (pLeft, pTop, pWidth, pHeight) \<Rightarrow>
                  chartSetPosition S chartId pLeft pTop pWidth pHeight d2) (\<lambda>d3.
     Inr (d3, UndoCreateChart chartId))))))))"

definition addConditionalFormatting ::
  "'d surface \<Rightarrow> string \<Rightarrow> jsval \<Rightarrow> 'd \<Rightarrow> error + ('d \<times> inverse)" where
  "addConditionalFormatting S tgt opts d =
     andThen (getProp opts ''type'') (\<lambda>oType.
     andThen (if oType = JStr ''cellValue''
              then andThen (getProp opts ''fillColor'') (\<lambda>oFillColor.
                   andThen (getProp opts ''rule'') (\<lambda>oRule.
                   Inr (Some (js_or oFillColor (JStr ''red''), oRule))))
              else Inr None) (\<lambda>cellValue.
     andThen (conditionalFormatsAdd S tgt oType cellValue d) (\<lambda>d'.
     Inr (d', UndoConditionalFormatting tgt))))"

definition sortRange ::
  "'d surface \<Rightarrow> string \<Rightarrow> jsval \<Rightarrow> 'd \<Rightarrow> error + ('d \<times> inverse)" where
  "sortRange S tgt opts d =
     andThen (rangeLoadValues S tgt d) (\<lambda>originalValues.
     andThen (getProp opts ''fields'') (\<lambda>oFields.
     let sortFields = js_or oFields (JArr [JObj [(''key'', JNum 0), (''ascending'', JBool True)]]) in
     andThen (getProp opts ''hasHeaders'') (\<lambda>oHasHeaders.
     andThen (sortApply S tgt sortFields (js_or oHasHeaders (JBool False)) d) (\<lambda>d'.
     Inr (d', UndoSortRange tgt originalValues)))))"

definition applyFilter ::
  "'d surface \<Rightarrow> string \<Rightarrow> jsval \<Rightarrow> 'd \<Rightarrow> error + ('d \<times> inverse)" where
  "applyFilter S tgt opts d =
     andThen (getProp opts ''columnIndex'') (\<lambda>oColumnIndex.
     andThen (if truthy oColumnIndex then getProp opts ''filterCriteria'' else Inr oColumnIndex)
       (\<lambda>withCriteria.
     andThen (autoFilterApply S tgt d) (\<lambda>d1.
     andThen (whenTruthy withCriteria
                (autoFilterApplyCriteria S tgt oColumnIndex withCriteria) d1) (\<lambda>d2.
     Inr (d2, UndoApplyFilter tgt)))))"

text \<open>
  \<open>if (fieldList) { fieldList.forEach(add) }\<close>: no field when \<open>fieldList\<close> is falsy, the
  elements in order when it is an array, a TypeError when it is anything else (nothing
  else has a \<open>forEach\<close>). Each call of \<open>add\<close> queues one request.
\<close>

definition forEach :: "jsval \<Rightarrow> error + jsval list" where
  "forEach fieldList =
     (if truthy fieldList
      then (case fieldList of JArr fs \<Rightarrow> Inr fs | _ \<Rightarrow> Inl (TypeError ''forEach''))
      else Inr [])"

fun requestEach :: "(jsval \<Rightarrow> 'd \<Rightarrow> error + 'd) \<Rightarrow> jsval list \<Rightarrow> 'd \<Rightarrow> error + 'd" where
  "requestEach add [] d = Inr d"
| "requestEach add (f # fs) d = andThen (add f d) (requestEach add fs)"

definition createPivotTable ::
  "'d surface \<Rightarrow> string \<Rightarrow> jsval \<Rightarrow> 'd \<Rightarrow> error + ('d \<times> inverse)" where
  "createPivotTable S tgt opts d =
     andThen (getProp opts ''name'') (\<lambda>oName.
     andThen (getProp opts ''destination'') (\<lambda>oDestination.
     andThen (getProp opts ''rowFields'') (\<lambda>oRowFields.
     andThen (forEach oRowFields) (\<lambda>rowFields.
     andThen (getProp opts ''dataFields'') (\<lambda>oDataFields.
     andThen (forEach oDataFields) (\<lambda>dataFields.
     andThen (pivotTablesAdd S (js_or oName (JStr ''ManicePivotTable'')) tgt
                (js_or oDestination (JStr ''H1'')) d) (\<lambda>(d1, pivotTableId).
     andThen (requestEach (pivotAddRowHierarchy S pivotTableId) rowFields d1) (\<lambda>d2.
     andThen (requestEach (pivotAddDataHierarchy S pivotTableId) dataFields d2) (\<lambda>d3.
     Inr (d3, UndoCreatePivotTable pivotTableId))))))))))"

definition renameSheet ::
  "'d surface \<Rightarrow> string \<Rightarrow> jsval \<Rightarrow> 'd \<Rightarrow> error + ('d \<times> inverse)" where
  "renameSheet S currentName newName d =
     andThen (worksheetSetName S (JStr currentName) newName d) (\<lambda>d'.
     Inr (d', UndoRenameSheet (JStr currentName) newName))"

definition createSheet ::
  "'d surface \<Rightarrow> jsval \<Rightarrow> jsval \<Rightarrow> 'd \<Rightarrow> error + ('d \<times> inverse)" where
  "createSheet S name opts d =
     andThen (worksheetsAdd S name (getPropOpt opts ''tabColor'') d) (\<lambda>d'.
     Inr (d', UndoCreateSheet name))"

text \<open>The bodies of the returned closures, by the handler that built them.\<close>

fun runInverse :: "'d surface \<Rightarrow> inverse \<Rightarrow> 'd \<Rightarrow> error + 'd" where
  "runInverse S (UndoSetCellValue tgt originalValues) d =
     rangeSetValues S tgt originalValues d"
| "runInverse S (UndoSetFormula tgt originalFormulas) d =
     rangeSetFormulas S tgt originalFormulas d"
| "runInverse S (UndoFormatRange tgt originalFormat) d =
     andThen (rangeAssignFont S tgt (JObj (font originalFormat)) d) (\<lambda>d1.
     andThen (rangeAssignFill S tgt (JObj (fill originalFormat)) d1) (\<lambda>d2.
     rangeAssignBorders S tgt (JObj (borders originalFormat)) d2))"
| "runInverse S (UndoInsertRows tgt) d = rangeDelete S tgt ShiftUp d"
| "runInverse S (UndoInsertColumns tgt) d = rangeDelete S tgt ShiftLeft d"
| "runInverse S (UndoDeleteRows tgt values formulas) d =
     andThen (rangeInsert S tgt ShiftDown d) (\<lambda>d1.
     andThen (rangeSetValues S tgt values d1) (\<lambda>d2.
     rangeSetFormulas S tgt formulas d2))"
| "runInverse S (UndoDeleteColumns tgt values formulas) d =
     andThen (rangeInsert S tgt ShiftRight d) (\<lambda>d1.
     andThen (rangeSetValues S tgt values d1) (\<lambda>d2.
     rangeSetFormulas S tgt formulas d2))"
| "runInverse S (UndoCreateChart chartId) d = chartDelete S chartId d"
| "runInverse S (UndoConditionalFormatting tgt) d = conditionalFormatsClearAll S tgt d"
| "runInverse S (UndoSortRange tgt originalValues) d = rangeSetValues S tgt originalValues d"
| "runInverse S (UndoApplyFilter tgt) d = autoFilterRemove S tgt d"
| "runInverse S (UndoCreatePivotTable pivotTableId) d = pivotTableDelete S pivotTableId d"
| "runInverse S (UndoRenameSheet currentName newName) d =
     worksheetSetName S newName currentName d"
| "runInverse S (UndoCreateSheet name) d = worksheetDelete S name d"

section \<open>The dispatcher\<close>

text \<open>
  \<open>executeOperation\<close>: the \<open>switch\<close> over \<open>operation.type\<close>. Its result is what the
  handler threw, or the document after it and the inverse (\<open>None\<close> for \<open>null\<close>), together
  with what it wrote to the console.
\<close>

definition handled ::
  "error + ('d \<times> inverse) \<Rightarrow> (error + ('d \<times> inverse option)) \<times> console list" where
  "handled r = (case r of Inl e \<Rightarrow> (Inl e, []) | Inr (d, undoOp) \<Rightarrow> (Inr (d, Some undoOp), []))"

definition executeOperation ::
  "'d surface \<Rightarrow> ExcelOperation \<Rightarrow> 'd \<Rightarrow> (error + ('d \<times> inverse option)) \<times> console list" where
  "executeOperation S operation d =
    (if optype operation = ''cell_edit'' then
       handled (setCellValue S (target operation) (opvalue operation) (options operation) d)
     else if optype operation = ''formula'' then
       handled (setFormula S (target operation) (opvalue operation) (options operation) d)
     else if optype operation = ''format'' then
       handled (formatRange S (target operation) (options operation) d)
     else if optype operation = ''insert_row'' then
       handled (insertRows S (target operation) (js_or (opvalue operation) (JNum 1)) d)
     else if optype operation = ''insert_column'' then
       handled (insertColumns S (target operation) (js_or (opvalue operation) (JNum 1)) d)
     else if optype operation = ''delete_row'' then
       handled (deleteRows S (target operation) d)
     else if optype operation = ''delete_column'' then
       handled (deleteColumns S (target operation) d)
     else if optype operation = ''chart'' then
       handled (createChart S (target operation) (options operation) d)
     else if optype operation = ''conditional_format'' then
       handled (addConditionalFormatting S (target operation) (options operation) d)
     else if optype operation = ''sort'' then
       handled (sortRange S (target operation) (options operation) d)
     else if optype operation = ''filter'' then
       handled (applyFilter S (target operation) (options operation) d)
     else if optype operation = ''pivot_table'' then
       handled (createPivotTable S (target operation) (options operation) d)
     else if optype operation = ''sheet_rename'' then
       handled (renameSheet S (target operation) (opvalue operation) d)
     else if optype operation = ''sheet_create'' then
       handled (createSheet S (opvalue operation) (options operation) d)
     else
       (Inr (d, None), [ConsoleWarn (''Unknown operation type: '' @ optype operation)]))"

section \<open>The batch executor and the undo history\<close>

text \<open>
  The state the service works on: the host's document, and the two private stacks of
  \<open>ExcelService\<close>. An entry of \<open>undoStack\<close> is the closure that \<open>executeOperations\<close>
  pushes, modelled as the array \<open>undoOperations\<close> it closes over. The arrays keep the
  order of the source: \<open>push\<close> appends, \<open>pop\<close> takes the last element, \<open>shift\<close> drops
  the first.
\<close>

record 'd service =
  doc :: 'd
  undoStack :: "inverse list list"
  redoStack :: "inverse list list"

definition maxUndoSteps :: nat where
  "maxUndoSteps = 50"

definition addToUndoStack :: "inverse list \<Rightarrow> 'd service \<Rightarrow> 'd service" where
  "addToUndoStack undoOperation st =
    (let pushed = undoStack st @ [undoOperation];
         limited = (if length pushed > maxUndoSteps then tl pushed else pushed)
     in st\<lparr> undoStack := limited, redoStack := [] \<rparr>)"

text \<open>
  The \<open>for\<close> loop inside \<open>try\<close>: it ends with the first error (\<open>Some e\<close>), handing the
  \<open>catch\<close> block the document and the inverses collected so far; \<open>unshift\<close> puts an
  inverse at the front.
\<close>

fun tryLoop ::
  "'d surface \<Rightarrow> ExcelOperation list \<Rightarrow> 'd \<Rightarrow> inverse list
     \<Rightarrow> error option \<times> 'd \<times> inverse list \<times> console list" where
  "tryLoop S [] d undoOperations = (None, d, undoOperations, [])"
| "tryLoop S (operation # rest) d undoOperations =
    (case executeOperation S operation d of
       (Inl e, out) \<Rightarrow> (Some e, d, undoOperations, out)
     | (Inr (d', undoOp), out) \<Rightarrow>
         (case tryLoop S rest d'
                 (case undoOp of Some u \<Rightarrow> u # undoOperations | None \<Rightarrow> undoOperations) of
            (r, d'', us, out') \<Rightarrow> (r, d'', us, out @ out')))"

text \<open>
  The loop of the \<open>catch\<close> block: every collected inverse is attempted, in the order
  held; one that throws is reported on the console and the loop goes on.
\<close>

fun rollback :: "'d surface \<Rightarrow> inverse list \<Rightarrow> 'd \<Rightarrow> 'd \<times> console list" where
  "rollback S [] d = (d, [])"
| "rollback S (undoOp # rest) d =
    (case runInverse S undoOp d of
       Inr d' \<Rightarrow> rollback S rest d'
     | Inl undoError \<Rightarrow>
         (case rollback S rest d of
            (d', out) \<Rightarrow> (d', ConsoleError ''Failed to undo operation:'' undoError # out)))"

definition executeOperations ::
  "'d surface \<Rightarrow> ExcelOperation list \<Rightarrow> 'd service
     \<Rightarrow> (error + unit) \<times> 'd service \<times> console list" where
  "executeOperations S operations st =
    (case tryLoop S operations (doc st) [] of
       (None, d, undoOperations, out) \<Rightarrow>
         (Inr (),
          (if length undoOperations > 0
           then addToUndoStack undoOperations (st\<lparr> doc := d \<rparr>)
           else st\<lparr> doc := d \<rparr>),
          out)
     | (Some e, d, undoOperations, out) \<Rightarrow>
         (case rollback S undoOperations d of
            (d', out') \<Rightarrow>
              (Inl e, st\<lparr> doc := d' \<rparr>,
               out @ [ConsoleError ''Failed to execute operations:'' e] @ out')))"

text \<open>
  The pushed closure: it runs the collected inverses in the order held and stops at
  the first that throws.
\<close>

fun runComposite :: "'d surface \<Rightarrow> inverse list \<Rightarrow> 'd \<Rightarrow> error option \<times> 'd" where
  "runComposite S [] d = (None, d)"
| "runComposite S (undoOp # rest) d =
    (case runInverse S undoOp d of
       Inl e \<Rightarrow> (Some e, d)
     | Inr d' \<Rightarrow> runComposite S rest d')"

definition undo :: "'d surface \<Rightarrow> 'd service \<Rightarrow> (error + unit) \<times> 'd service" where
  "undo S st =
    (if length (undoStack st) > 0 then
       (let undoOperation = last (undoStack st);
            popped = st\<lparr> undoStack := butlast (undoStack st) \<rparr>
        in case runComposite S undoOperation (doc popped) of
             (None, d) \<Rightarrow> (Inr (), popped\<lparr> doc := d \<rparr>)
           | (Some e, d) \<Rightarrow> (Inl e, popped\<lparr> doc := d \<rparr>))
     else (Inr (), st))"

text \<open>A new \<open>ExcelService\<close> over a document: both stacks empty.\<close>

definition newService :: "'d \<Rightarrow> 'd service" where
  "newService d = \<lparr> doc = d, undoStack = [], redoStack = [] \<rparr>"

text \<open>
  The two entry points as calls, and a session: the calls a client makes one after the
  other on a service, whatever each returns.
\<close>

datatype call = ExecuteOperations "ExcelOperation list" | Undo

fun perform :: "'d surface \<Rightarrow> call \<Rightarrow> 'd service \<Rightarrow> 'd service" where
  "perform S (ExecuteOperations operations) st = fst (snd (executeOperations S operations st))"
| "perform S Undo st = snd (undo S st)"

fun session :: "'d surface \<Rightarrow> call list \<Rightarrow> 'd service \<Rightarrow> 'd service" where
  "session S [] st = st"
| "session S (c # cs) st = session S cs (perform S c st)"

section \<open>isValidRange\<close>

text \<open>
  A string of the language is the list of its code points. \<open>toUpperCase\<close> maps each
  code point by itself (Unicode's default upper-casing has no context rule): an ASCII
  letter to its capital, any other ASCII character to itself, and a code point beyond
  ASCII to whatever Unicode's tables say, which can be one or several code points and
  is the parameter \<open>special\<close>.
\<close>

type_synonym jsstring = "nat list"

definition codePoints :: "string \<Rightarrow> jsstring" where
  "codePoints s = map of_char s"

definition upperAscii :: "nat \<Rightarrow> nat" where
  "upperAscii c = (if 97 \<le> c \<and> c \<le> 122 then c - 32 else c)"

definition toUpperCase :: "(nat \<Rightarrow> jsstring) \<Rightarrow> jsstring \<Rightarrow> jsstring" where
  "toUpperCase special s = concat (map (\<lambda>c. if c < 128 then [upperAscii c] else special c) s)"

text \<open>
  Regular expressions as far as \<open>rangePattern\<close> needs them, and what they match:
  \<open>lang r\<close> is the set of strings that \<open>r\<close> matches from the first character to the
  last, which is what \<open>/^r$/.test(s)\<close> decides.
\<close>

datatype regex =
    Never
  | Empty
  | CharRange nat nat
  | Concat regex regex
  | Either regex regex
  | Star regex

definition Lit :: "char \<Rightarrow> regex" where
  "Lit c = CharRange (of_char c) (of_char c)"

definition Class :: "char \<Rightarrow> char \<Rightarrow> regex" where
  "Class a b = CharRange (of_char a) (of_char b)"

definition OneOrMore :: "regex \<Rightarrow> regex" where
  "OneOrMore r = Concat r (Star r)"

definition Optional :: "regex \<Rightarrow> regex" where
  "Optional r = Either r Empty"

inductive_set star :: "jsstring set \<Rightarrow> jsstring set" for A :: "jsstring set" where
  star_empty: "[] \<in> star A"
| star_step: "u \<in> A \<Longrightarrow> v \<in> star A \<Longrightarrow> u @ v \<in> star A"

fun lang :: "regex \<Rightarrow> jsstring set" where
  "lang Never = {}"
| "lang Empty = {[]}"
| "lang (CharRange lo hi) = {[c] | c. lo \<le> c \<and> c \<le> hi}"
| "lang (Concat r s) = {u @ v | u v. u \<in> lang r \<and> v \<in> lang s}"
| "lang (Either r s) = lang r \<union> lang s"
| "lang (Star r) = star (lang r)"

text \<open>The test itself, by derivatives: executable, and equal to membership in \<open>lang\<close>.\<close>

fun nullable :: "regex \<Rightarrow> bool" where
  "nullable Never = False"
| "nullable Empty = True"
| "nullable (CharRange lo hi) = False"
| "nullable (Concat r s) = (nullable r \<and> nullable s)"
| "nullable (Either r s) = (nullable r \<or> nullable s)"
| "nullable (Star r) = True"

fun deriv :: "nat \<Rightarrow> regex \<Rightarrow> regex" where
  "deriv c Never = Never"
| "deriv c Empty = Never"
| "deriv c (CharRange lo hi) = (if lo \<le> c \<and> c \<le> hi then Empty else Never)"
| "deriv c (Concat r s) =
     (if nullable r then Either (Concat (deriv c r) s) (deriv c s) else Concat (deriv c r) s)"
| "deriv c (Either r s) = Either (deriv c r) (deriv c s)"
| "deriv c (Star r) = Concat (deriv c r) (Star r)"

fun regexTest :: "regex \<Rightarrow> jsstring \<Rightarrow> bool" where
  "regexTest r [] = nullable r"
| "regexTest r (c # cs) = regexTest (deriv c r) cs"

text \<open>\<open>/^[A-Z]+[0-9]+(:([A-Z]+[0-9]+)?)?$/\<close>\<close>

definition rangePattern :: regex where
  "rangePattern =
     Concat (OneOrMore (Class CHR ''A'' CHR ''Z''))
    (Concat (OneOrMore (Class CHR ''0'' CHR ''9''))
            (Optional (Concat (Lit CHR '':'')
                              (Optional (Concat (OneOrMore (Class CHR ''A'' CHR ''Z''))
                                                (OneOrMore (Class CHR ''0'' CHR ''9'')))))))"

text \<open>
  \<open>isValidRange\<close>. Its argument is a string, so neither \<open>toUpperCase\<close> nor \<open>test\<close> can
  throw and the \<open>catch\<close> branch is never entered; the function is total.
\<close>

definition isValidRange :: "(nat \<Rightarrow> jsstring) \<Rightarrow> jsstring \<Rightarrow> bool" where
  "isValidRange special rangeAddress = regexTest rangePattern (toUpperCase special rangeAddress)"

text \<open>
  The shape the pattern describes, spelled out: a cell reference is one or more
  capital letters followed by one or more digits; a valid address is a cell reference,
  optionally followed by a colon, optionally followed by a second cell reference.
\<close>

definition letters :: "jsstring \<Rightarrow> bool" where
  "letters w = (w \<noteq> [] \<and> (\<forall>c\<in>set w. of_char CHR ''A'' \<le> c \<and> c \<le> of_char CHR ''Z''))"

definition digits :: "jsstring \<Rightarrow> bool" where
  "digits w = (w \<noteq> [] \<and> (\<forall>c\<in>set w. of_char CHR ''0'' \<le> c \<and> c \<le> of_char CHR ''9''))"

definition cellReference :: "jsstring \<Rightarrow> bool" where
  "cellReference w = (\<exists>ls ds. w = ls @ ds \<and> letters ls \<and> digits ds)"

definition rangeShape :: "jsstring \<Rightarrow> bool" where
  "rangeShape w =
     (cellReference w
      \<or> (\<exists>a. w = a @ codePoints '':'' \<and> cellReference a)
      \<or> (\<exists>a b. w = a @ codePoints '':'' @ b \<and> cellReference a \<and> cellReference b))"

section \<open>A reference sheet\<close>

text \<open>
  Modelled from the spec: one concrete host for the surface above (spec section 6), so
  that the properties below can be run on explicit documents. It is not code of the
  repository. The sheet is a fixed-size grid of cells of the active worksheet; a cell
  holds its value, its formula text, its font, fill and borders and its number format.
  Addresses are in capital letters: a cell \<open>A1\<close>, a rectangle \<open>A1:B2\<close>, whole rows
  \<open>3:3\<close>, whole columns \<open>B:C\<close>; anything else, or an address beyond the grid, does not
  resolve and the request is rejected with \<open>InvalidArgument\<close>.
\<close>

record refcell =
  cellValue :: jsval
  cellFormula :: jsval
  cellFont :: "(string \<times> jsval) list"
  cellFill :: "(string \<times> jsval) list"
  cellBorders :: "(string \<times> jsval) list"
  cellNumberFormat :: jsval

definition blankCell :: refcell where
  "blankCell =
     \<lparr> cellValue = JStr [], cellFormula = JStr [],
       cellFont = [(''bold'', JBool False), (''color'', JStr ''#000000'')],
       cellFill = [(''color'', JStr ''#FFFFFF'')],
       cellBorders = [(''style'', JStr ''None'')],
       cellNumberFormat = JStr ''General'' \<rparr>"

record refchart =
  chartType :: jsval
  chartSource :: string
  chartTitle :: jsval
  chartPosition :: "jsval list"

record refpivot =
  pivotName :: jsval
  pivotSource :: string
  pivotDestination :: jsval
  pivotRowFields :: "jsval list"
  pivotDataFields :: "jsval list"

record refdoc =
  sheets :: "(string \<times> jsval) list"
  activeSheet :: string
  grid :: "refcell list list"
  charts :: "(string \<times> refchart) list"
  pivotTables :: "(string \<times> refpivot) list"
  conditionalFormats :: "(string \<times> jsval \<times> (jsval \<times> jsval) option) list"
  autoFilter :: "(string \<times> (jsval \<times> jsval) list) option"
  nextId :: nat

record rect =
  top :: nat
  left :: nat
  height :: nat
  width :: nat

definition isCapital :: "char \<Rightarrow> bool" where
  "isCapital c = (65 \<le> (of_char c :: nat) \<and> (of_char c :: nat) \<le> 90)"

definition isDigit :: "char \<Rightarrow> bool" where
  "isDigit c = (48 \<le> (of_char c :: nat) \<and> (of_char c :: nat) \<le> 57)"

definition columnNumber :: "string \<Rightarrow> nat" where
  "columnNumber ls = foldl (\<lambda>a c. a * 26 + (of_char c - 64)) 0 ls"

definition rowNumber :: "string \<Rightarrow> nat" where
  "rowNumber ds = foldl (\<lambda>a c. a * 10 + (of_char c - 48)) 0 ds"

text \<open>One side of an address: a column, a row, or both, counted from 1 (0: absent).\<close>

definition parseRef :: "string \<Rightarrow> (nat \<times> nat) option" where
  "parseRef s =
    (let ls = takeWhile isCapital s; ds = dropWhile isCapital s
     in if list_all isDigit ds \<and> (ls \<noteq> [] \<or> ds \<noteq> []) \<and> (ds = [] \<or> rowNumber ds > 0)
        then Some (columnNumber ls, rowNumber ds) else None)"

definition span :: "nat \<Rightarrow> nat \<Rightarrow> nat \<Rightarrow> nat \<times> nat" where
  "span n a b = (if a = 0 then (0, n) else (min a b - 1, max a b - min a b + 1))"

definition resolve :: "refdoc \<Rightarrow> string \<Rightarrow> rect option" where
  "resolve d address =
    (let nrows = length (grid d);
         ncols = (case grid d of [] \<Rightarrow> 0 | r # rs \<Rightarrow> length r);
         first = takeWhile (\<lambda>c. c \<noteq> CHR '':'') address;
         rest = dropWhile (\<lambda>c. c \<noteq> CHR '':'') address
     in case (parseRef first, if rest = [] then parseRef first else parseRef (tl rest)) of
          (Some (c1, r1), Some (c2, r2)) \<Rightarrow>
            if (c1 = 0) = (c2 = 0) \<and> (r1 = 0) = (r2 = 0) \<and> (rest \<noteq> [] \<or> (c1 > 0 \<and> r1 > 0))
            then (let (t, h) = span nrows r1 r2; (l, w) = span ncols c1 c2
                  in if t + h \<le> nrows \<and> l + w \<le> ncols
                     then Some \<lparr> top = t, left = l, height = h, width = w \<rparr> else None)
            else None
        | _ \<Rightarrow> None)"


text \<open>Decimal numerals, for the identifiers the sheet generates.\<close>

fun decimal :: "nat \<Rightarrow> string" where
  "decimal n = (if n < 10 then [''0123456789'' ! n]
                else decimal (n div 10) @ [''0123456789'' ! (n mod 10)])"

declare decimal.simps [simp del]

definition inside :: "rect \<Rightarrow> nat \<Rightarrow> nat \<Rightarrow> bool" where
  "inside r i j = (top r \<le> i \<and> i < top r + height r \<and> left r \<le> j \<and> j < left r + width r)"

definition rowCount :: "refcell list list \<Rightarrow> nat" where
  "rowCount g = length g"

definition columnCount :: "refcell list list \<Rightarrow> nat" where
  "columnCount g = (case g of [] \<Rightarrow> 0 | r # rs \<Rightarrow> length r)"

text \<open>The grid rebuilt cell by cell, same size.\<close>

definition rebuild :: "refcell list list \<Rightarrow> (nat \<Rightarrow> nat \<Rightarrow> refcell) \<Rightarrow> refcell list list" where
  "rebuild g f = map (\<lambda>i. map (\<lambda>j. f i j) [0..<columnCount g]) [0..<rowCount g]"

definition readRect :: "(refcell \<Rightarrow> jsval) \<Rightarrow> rect \<Rightarrow> refcell list list \<Rightarrow> jsval" where
  "readRect field r g =
     JArr (map (\<lambda>i. JArr (map (\<lambda>j. field (g ! i ! j)) [left r..<left r + width r]))
               [top r..<top r + height r])"

text \<open>
  What is assigned to \<open>values\<close>, \<open>formulas\<close> or \<open>numberFormat\<close>: a two-dimensional
  array of the range's size, or one scalar for every cell.
\<close>

definition scalar :: "jsval \<Rightarrow> bool" where
  "scalar v = (case v of JNull \<Rightarrow> True | JBool b \<Rightarrow> True | JNum n \<Rightarrow> True | JStr s \<Rightarrow> True
               | _ \<Rightarrow> False)"

definition rowOf :: "jsval \<Rightarrow> jsval list" where
  "rowOf v = (case v of JArr xs \<Rightarrow> xs | _ \<Rightarrow> [])"

definition matrixFor :: "rect \<Rightarrow> jsval \<Rightarrow> jsval list list option" where
  "matrixFor r v =
    (case v of
       JArr rows \<Rightarrow>
         if length rows = height r
            \<and> list_all (\<lambda>row. (case row of JArr xs \<Rightarrow> length xs = width r \<and> list_all scalar xs
                                  | _ \<Rightarrow> False)) rows
         then Some (map rowOf rows) else None
     | _ \<Rightarrow> if scalar v then Some (replicate (height r) (replicate (width r) v)) else None)"

definition writeRect ::
  "(jsval \<Rightarrow> refcell \<Rightarrow> refcell) \<Rightarrow> rect \<Rightarrow> jsval list list \<Rightarrow> refcell list list
     \<Rightarrow> refcell list list" where
  "writeRect put r m g =
     rebuild g (\<lambda>i j. if inside r i j then put (m ! (i - top r) ! (j - left r)) (g ! i ! j)
                       else g ! i ! j)"

text \<open>
  A cell takes an input: null leaves it as it is; a string that starts with \<open>=\<close> is a
  formula, whose value is the recalculation engine's (the parameter \<open>calc\<close>: spec
  section 1 puts recalculation out of scope); any other scalar is a constant, which is
  the cell's value and its formula text alike.
\<close>

definition putInput :: "(string \<Rightarrow> jsval) \<Rightarrow> jsval \<Rightarrow> refcell \<Rightarrow> refcell" where
  "putInput calc x c =
    (case x of
       JNull \<Rightarrow> c
     | JStr s \<Rightarrow> (if s \<noteq> [] \<and> hd s = CHR ''=''
                  then c\<lparr> cellValue := calc s, cellFormula := x \<rparr>
                  else c\<lparr> cellValue := x, cellFormula := x \<rparr>)
     | _ \<Rightarrow> c\<lparr> cellValue := x, cellFormula := x \<rparr>)"

definition putNumberFormat :: "jsval \<Rightarrow> refcell \<Rightarrow> refcell" where
  "putNumberFormat x c = (case x of JNull \<Rightarrow> c | _ \<Rightarrow> c\<lparr> cellNumberFormat := x \<rparr>)"

text \<open>\<open>Object.assign\<close> onto a format sub-object: the properties it has take the source's values.\<close>

definition assignProps :: "jsval \<Rightarrow> (string \<times> jsval) list \<Rightarrow> (string \<times> jsval) list" where
  "assignProps src props =
    (case src of
       JObj kvs \<Rightarrow> map (\<lambda>(k, v). (case map_of kvs k of Some v' \<Rightarrow> (k, v') | None \<Rightarrow> (k, v))) props
     | _ \<Rightarrow> props)"

definition invalidArgument :: error where
  "invalidArgument = HostError ''InvalidArgument''"

definition itemNotFound :: error where
  "itemNotFound = HostError ''ItemNotFound''"

definition onRange :: "refdoc \<Rightarrow> string \<Rightarrow> (rect \<Rightarrow> error + 'a) \<Rightarrow> error + 'a" where
  "onRange d address f = (case resolve d address of None \<Rightarrow> Inl invalidArgument | Some r \<Rightarrow> f r)"

definition refLoad :: "(refcell \<Rightarrow> jsval) \<Rightarrow> string \<Rightarrow> refdoc \<Rightarrow> error + jsval" where
  "refLoad field address d = onRange d address (\<lambda>r. Inr (readRect field r (grid d)))"

definition refLoadFormat :: "string \<Rightarrow> refdoc \<Rightarrow> error + RangeFormat" where
  "refLoadFormat address d =
     onRange d address (\<lambda>r.
       let c = grid d ! top r ! left r
       in Inr \<lparr> font = cellFont c, fill = cellFill c, borders = cellBorders c \<rparr>)"

definition refWrite ::
  "(jsval \<Rightarrow> refcell \<Rightarrow> refcell) \<Rightarrow> string \<Rightarrow> jsval \<Rightarrow> refdoc \<Rightarrow> error + refdoc" where
  "refWrite put address v d =
     onRange d address (\<lambda>r.
       case matrixFor r v of
         None \<Rightarrow> Inl invalidArgument
       | Some m \<Rightarrow> Inr (d\<lparr> grid := writeRect put r m (grid d) \<rparr>))"

definition refAssign ::
  "(refcell \<Rightarrow> refcell) \<Rightarrow> string \<Rightarrow> refdoc \<Rightarrow> error + refdoc" where
  "refAssign change address d =
     onRange d address (\<lambda>r.
       Inr (d\<lparr> grid := rebuild (grid d)
                 (\<lambda>i j. if inside r i j then change (grid d ! i ! j) else grid d ! i ! j) \<rparr>))"


text \<open>
  Insert and delete with a shift. The sheet has a fixed size, as the host's has: an
  insert pushes the last cells of the affected columns (rows) off the sheet and is
  refused when one of them is not blank; a delete lets blank cells in at the end.
\<close>

definition refInsert :: "string \<Rightarrow> shift \<Rightarrow> refdoc \<Rightarrow> error + refdoc" where
  "refInsert address dir d =
     onRange d address (\<lambda>r.
       let g = grid d; n = rowCount g; m = columnCount g in
       case dir of
         ShiftDown \<Rightarrow>
           if list_all (\<lambda>i. list_all (\<lambda>j. g ! i ! j = blankCell) [left r..<left r + width r])
                [n - height r..<n]
           then Inr (d\<lparr> grid := rebuild g (\<lambda>i j.
                  if left r \<le> j \<and> j < left r + width r \<and> top r \<le> i
                  then (if i < top r + height r then blankCell else g ! (i - height r) ! j)
                  else g ! i ! j) \<rparr>)
           else Inl (HostError ''InsertDeleteConflict'')
       | ShiftRight \<Rightarrow>
           if list_all (\<lambda>i. list_all (\<lambda>j. g ! i ! j = blankCell) [m - width r..<m])
                [top r..<top r + height r]
           then Inr (d\<lparr> grid := rebuild g (\<lambda>i j.
                  if top r \<le> i \<and> i < top r + height r \<and> left r \<le> j
                  then (if j < left r + width r then blankCell else g ! i ! (j - width r))
                  else g ! i ! j) \<rparr>)
           else Inl (HostError ''InsertDeleteConflict'')
       | _ \<Rightarrow> Inl invalidArgument)"

definition refDelete :: "string \<Rightarrow> shift \<Rightarrow> refdoc \<Rightarrow> error + refdoc" where
  "refDelete address dir d =
     onRange d address (\<lambda>r.
       let g = grid d; n = rowCount g; m = columnCount g in
       case dir of
         ShiftUp \<Rightarrow>
           Inr (d\<lparr> grid := rebuild g (\<lambda>i j.
                  if left r \<le> j \<and> j < left r + width r \<and> top r \<le> i
                  then (if i + height r < n then g ! (i + height r) ! j else blankCell)
                  else g ! i ! j) \<rparr>)
       | ShiftLeft \<Rightarrow>
           Inr (d\<lparr> grid := rebuild g (\<lambda>i j.
                  if top r \<le> i \<and> i < top r + height r \<and> left r \<le> j
                  then (if j + width r < m then g ! i ! (j + width r) else blankCell)
                  else g ! i ! j) \<rparr>)
       | _ \<Rightarrow> Inl invalidArgument)"

text \<open>Charts and pivot tables: collections keyed by the identifier the sheet generates.\<close>

definition isString :: "jsval \<Rightarrow> bool" where
  "isString v = (case v of JStr s \<Rightarrow> True | _ \<Rightarrow> False)"

definition refChartsAdd :: "jsval \<Rightarrow> string \<Rightarrow> refdoc \<Rightarrow> error + (refdoc \<times> string)" where
  "refChartsAdd ty address d =
     onRange d address (\<lambda>r.
       if isString ty
       then (let chartId = ''chart'' @ decimal (nextId d)
             in Inr (d\<lparr> charts := charts d @
                        [(chartId, \<lparr> chartType = ty, chartSource = address,
                                     chartTitle = JStr [], chartPosition = [] \<rparr>)],
                       nextId := Suc (nextId d) \<rparr>, chartId))
       else Inl invalidArgument)"

definition refChartUpdate :: "string \<Rightarrow> (refchart \<Rightarrow> refchart) \<Rightarrow> refdoc \<Rightarrow> error + refdoc" where
  "refChartUpdate chartId change d =
     (if chartId \<in> set (map fst (charts d))
      then Inr (d\<lparr> charts := map (\<lambda>(k, c). if k = chartId then (k, change c) else (k, c)) (charts d) \<rparr>)
      else Inl itemNotFound)"

definition refChartDelete :: "string \<Rightarrow> refdoc \<Rightarrow> error + refdoc" where
  "refChartDelete chartId d =
     (if chartId \<in> set (map fst (charts d))
      then Inr (d\<lparr> charts := filter (\<lambda>(k, c). k \<noteq> chartId) (charts d) \<rparr>)
      else Inl itemNotFound)"

definition refPivotTablesAdd ::
  "jsval \<Rightarrow> string \<Rightarrow> jsval \<Rightarrow> refdoc \<Rightarrow> error + (refdoc \<times> string)" where
  "refPivotTablesAdd name address destination d =
     onRange d address (\<lambda>r.
       case (name, destination) of
         (JStr n, JStr dest) \<Rightarrow>
           onRange d dest (\<lambda>r'.
             if JStr n \<in> set (map (pivotName \<circ> snd) (pivotTables d)) then Inl invalidArgument
             else (let pivotTableId = ''pivot'' @ decimal (nextId d)
                   in Inr (d\<lparr> pivotTables := pivotTables d @
                              [(pivotTableId, \<lparr> pivotName = name, pivotSource = address,
                                  pivotDestination = destination, pivotRowFields = [],
                                  pivotDataFields = [] \<rparr>)],
                             nextId := Suc (nextId d) \<rparr>, pivotTableId)))
       | _ \<Rightarrow> Inl invalidArgument)"

text \<open>A pivot table's hierarchies are the headers of its source: the source's first row.\<close>

definition refPivotAddHierarchy ::
  "bool \<Rightarrow> string \<Rightarrow> jsval \<Rightarrow> refdoc \<Rightarrow> error + refdoc" where
  "refPivotAddHierarchy asRow pivotTableId field d =
    (case map_of (pivotTables d) pivotTableId of
       None \<Rightarrow> Inl itemNotFound
     | Some p \<Rightarrow>
         onRange d (pivotSource p) (\<lambda>r.
           if isString field
              \<and> field \<in> set (map (\<lambda>j. cellValue (grid d ! top r ! j)) [left r..<left r + width r])
           then Inr (d\<lparr> pivotTables := map (\<lambda>(k, q).
                    if k = pivotTableId
                    then (k, if asRow then q\<lparr> pivotRowFields := pivotRowFields q @ [field] \<rparr>
                             else q\<lparr> pivotDataFields := pivotDataFields q @ [field] \<rparr>)
                    else (k, q)) (pivotTables d) \<rparr>)
           else Inl itemNotFound))"

definition refPivotTableDelete :: "string \<Rightarrow> refdoc \<Rightarrow> error + refdoc" where
  "refPivotTableDelete pivotTableId d =
     (if pivotTableId \<in> set (map fst (pivotTables d))
      then Inr (d\<lparr> pivotTables := filter (\<lambda>(k, p). k \<noteq> pivotTableId) (pivotTables d) \<rparr>)
      else Inl itemNotFound)"


text \<open>Conditional formats, the sort, the auto-filter, and the worksheets.\<close>

definition overlap :: "rect \<Rightarrow> rect \<Rightarrow> bool" where
  "overlap a b =
     (top a < top b + height b \<and> top b < top a + height a
      \<and> left a < left b + width b \<and> left b < left a + width a)"

definition conditionalFormatTypes :: "string list" where
  "conditionalFormatTypes =
     [''custom'', ''dataBar'', ''colorScale'', ''iconSet'', ''topBottom'', ''presetCriteria'',
      ''containsText'', ''cellValue'']"

definition refConditionalFormatsAdd ::
  "string \<Rightarrow> jsval \<Rightarrow> (jsval \<times> jsval) option \<Rightarrow> refdoc \<Rightarrow> error + refdoc" where
  "refConditionalFormatsAdd address ty cv d =
     onRange d address (\<lambda>r.
       case ty of
         JStr t \<Rightarrow>
           if t \<in> set conditionalFormatTypes
           then Inr (d\<lparr> conditionalFormats := conditionalFormats d @ [(address, ty, cv)] \<rparr>)
           else Inl invalidArgument
       | _ \<Rightarrow> Inl invalidArgument)"

definition refConditionalFormatsClearAll :: "string \<Rightarrow> refdoc \<Rightarrow> error + refdoc" where
  "refConditionalFormatsClearAll address d =
     onRange d address (\<lambda>r.
       Inr (d\<lparr> conditionalFormats :=
              filter (\<lambda>(a, ty, cv). case resolve d a of Some r' \<Rightarrow> \<not> overlap r r' | None \<Rightarrow> True)
                (conditionalFormats d) \<rparr>))"

definition sortValue :: "jsval \<Rightarrow> int" where
  "sortValue v = (case v of JNum n \<Rightarrow> n | _ \<Rightarrow> 0)"

text \<open>The sort by the first sort field, on numbers; the rows move with all they hold.\<close>

definition refSortApply :: "string \<Rightarrow> jsval \<Rightarrow> jsval \<Rightarrow> refdoc \<Rightarrow> error + refdoc" where
  "refSortApply address fieldList hasHeaders d =
     onRange d address (\<lambda>r.
       case fieldList of
         JArr (f # fs) \<Rightarrow>
           (case getPropOpt f ''key'' of
              JNum k \<Rightarrow>
                if 0 \<le> k \<and> nat k < width r
                then (let g = grid d;
                          rows = map (\<lambda>i. map (\<lambda>j. g ! i ! j) [left r..<left r + width r])
                                   [top r..<top r + height r];
                          header = (if truthy hasHeaders then take 1 rows else []);
                          body = (if truthy hasHeaders then drop 1 rows else rows);
                          sorted = sort_key (\<lambda>row. sortValue (cellValue (row ! nat k))) body;
                          ordered = header @
                            (if getPropOpt f ''ascending'' = JBool False then rev sorted else sorted)
                      in Inr (d\<lparr> grid := rebuild g (\<lambda>i j.
                                if inside r i j then ordered ! (i - top r) ! (j - left r)
                                else g ! i ! j) \<rparr>))
                else Inl invalidArgument
            | _ \<Rightarrow> Inl invalidArgument)
       | _ \<Rightarrow> Inl invalidArgument)"

definition refAutoFilterApply :: "string \<Rightarrow> refdoc \<Rightarrow> error + refdoc" where
  "refAutoFilterApply address d =
     onRange d address (\<lambda>r. Inr (d\<lparr> autoFilter := Some (address, []) \<rparr>))"

definition refAutoFilterApplyCriteria ::
  "string \<Rightarrow> jsval \<Rightarrow> jsval \<Rightarrow> refdoc \<Rightarrow> error + refdoc" where
  "refAutoFilterApplyCriteria address columnIndex criteria d =
     onRange d address (\<lambda>r.
       case (autoFilter d, columnIndex) of
         (Some (a, cs), JNum k) \<Rightarrow>
           if 0 \<le> k \<and> nat k < width r
           then Inr (d\<lparr> autoFilter := Some (a, cs @ [(columnIndex, criteria)]) \<rparr>)
           else Inl invalidArgument
       | _ \<Rightarrow> Inl invalidArgument)"

definition refAutoFilterRemove :: "string \<Rightarrow> refdoc \<Rightarrow> error + refdoc" where
  "refAutoFilterRemove address d =
     onRange d address (\<lambda>r. Inr (d\<lparr> autoFilter := None \<rparr>))"

definition sheetNames :: "refdoc \<Rightarrow> string list" where
  "sheetNames d = map fst (sheets d)"

definition refWorksheetSetName :: "jsval \<Rightarrow> jsval \<Rightarrow> refdoc \<Rightarrow> error + refdoc" where
  "refWorksheetSetName current new d =
    (case current of
       JStr c \<Rightarrow>
         if c \<in> set (sheetNames d)
         then (case new of
                 JStr n \<Rightarrow>
                   if n \<noteq> [] \<and> (n = c \<or> n \<notin> set (sheetNames d))
                   then Inr (d\<lparr> sheets := map (\<lambda>(k, tab). if k = c then (n, tab) else (k, tab)) (sheets d),
                                activeSheet := (if activeSheet d = c then n else activeSheet d) \<rparr>)
                   else Inl invalidArgument
               | _ \<Rightarrow> Inl invalidArgument)
         else Inl itemNotFound
     | _ \<Rightarrow> Inl itemNotFound)"

text \<open>\<open>worksheets.add(name)\<close>: without a name the sheet picks the first free \<open>SheetN\<close>.\<close>

definition freeSheetName :: "string list \<Rightarrow> string" where
  "freeSheetName names =
    (case filter (\<lambda>n. n \<notin> set names) (map (\<lambda>k. ''Sheet'' @ decimal (Suc k)) [0..<Suc (length names)]) of
       n # ns \<Rightarrow> n
     | [] \<Rightarrow> ''Sheet'')"

definition refWorksheetsAdd :: "jsval \<Rightarrow> jsval \<Rightarrow> refdoc \<Rightarrow> error + refdoc" where
  "refWorksheetsAdd name tabColor d =
    (let tab = (if truthy tabColor then tabColor else JNull) in
     case name of
       JUndefined \<Rightarrow> Inr (d\<lparr> sheets := sheets d @ [(freeSheetName (sheetNames d), tab)] \<rparr>)
     | JStr n \<Rightarrow>
         if n \<noteq> [] \<and> n \<notin> set (sheetNames d)
         then Inr (d\<lparr> sheets := sheets d @ [(n, tab)] \<rparr>)
         else Inl invalidArgument
     | _ \<Rightarrow> Inl invalidArgument)"

text \<open>The sheet keeps the cells of the active worksheet only, so that one cannot be deleted.\<close>

definition refWorksheetDelete :: "jsval \<Rightarrow> refdoc \<Rightarrow> error + refdoc" where
  "refWorksheetDelete name d =
    (case name of
       JStr n \<Rightarrow>
         if n \<in> set (sheetNames d)
         then (if n = activeSheet d then Inl (HostError ''InvalidOperation'')
               else Inr (d\<lparr> sheets := filter (\<lambda>(k, tab). k \<noteq> n) (sheets d) \<rparr>))
         else Inl itemNotFound
     | _ \<Rightarrow> Inl itemNotFound)"

definition refSurface :: "(string \<Rightarrow> jsval) \<Rightarrow> refdoc surface" where
  "refSurface calc =
    \<lparr> rangeLoadValues = refLoad cellValue,
      rangeLoadFormulas = refLoad cellFormula,
      rangeLoadFormat = refLoadFormat,
      rangeSetValues = refWrite (putInput calc),
      rangeSetFormulas = refWrite (putInput calc),
      rangeAssignFont = (\<lambda>address v. refAssign (\<lambda>c. c\<lparr> cellFont := assignProps v (cellFont c) \<rparr>) address),
      rangeAssignFill = (\<lambda>address v. refAssign (\<lambda>c. c\<lparr> cellFill := assignProps v (cellFill c) \<rparr>) address),
      rangeAssignBorders =
        (\<lambda>address v. refAssign (\<lambda>c. c\<lparr> cellBorders := assignProps v (cellBorders c) \<rparr>) address),
      rangeSetNumberFormat = refWrite putNumberFormat,
      rangeInsert = refInsert,
      rangeDelete = refDelete,
      chartsAdd = refChartsAdd,
      chartSetTitle = (\<lambda>chartId v. refChartUpdate chartId (\<lambda>c. c\<lparr> chartTitle := v \<rparr>)),
      chartSetPosition = (\<lambda>chartId l t w h.
        refChartUpdate chartId (\<lambda>c. c\<lparr> chartPosition := [l, t, w, h] \<rparr>)),
      chartDelete = refChartDelete,
      conditionalFormatsAdd = refConditionalFormatsAdd,
      conditionalFormatsClearAll = refConditionalFormatsClearAll,
      sortApply = refSortApply,
      autoFilterApply = refAutoFilterApply,
      autoFilterApplyCriteria = refAutoFilterApplyCriteria,
      autoFilterRemove = refAutoFilterRemove,
      pivotTablesAdd = refPivotTablesAdd,
      pivotAddRowHierarchy = refPivotAddHierarchy True,
      pivotAddDataHierarchy = refPivotAddHierarchy False,
      pivotTableDelete = refPivotTableDelete,
      worksheetSetName = refWorksheetSetName,
      worksheetsAdd = refWorksheetsAdd,
      worksheetDelete = refWorksheetDelete \<rparr>"

section \<open>Vocabulary of the properties\<close>

text \<open>The \<open>case\<close> labels of the dispatcher's \<open>switch\<close>.\<close>

definition recognizedTypes :: "string list" where
  "recognizedTypes =
     [''cell_edit'', ''formula'', ''format'', ''insert_row'', ''insert_column'', ''delete_row'',
      ''delete_column'', ''chart'', ''conditional_format'', ''sort'', ''filter'', ''pivot_table'',
      ''sheet_rename'', ''sheet_create'']"

text \<open>
  A run of a batch has exact inverses when every step that the run reaches either
  returns no inverse and leaves the document alone, or returns an inverse that, run on
  the document the step left, succeeds and gives back the document the step found.
\<close>

fun exactInverses :: "'d surface \<Rightarrow> ExcelOperation list \<Rightarrow> 'd \<Rightarrow> bool" where
  "exactInverses S [] d = True"
| "exactInverses S (operation # rest) d =
    (case fst (executeOperation S operation d) of
       Inl e \<Rightarrow> True
     | Inr (d', None) \<Rightarrow> d' = d \<and> exactInverses S rest d'
     | Inr (d', Some undoOp) \<Rightarrow> runInverse S undoOp d' = Inr d \<and> exactInverses S rest d')"

text \<open>
  The inverses a run of a batch collects, in application order; and the errors thrown
  by the inverses that fail when a list of inverses is rolled back.
\<close>

fun inversesInOrder :: "'d surface \<Rightarrow> ExcelOperation list \<Rightarrow> 'd \<Rightarrow> inverse list" where
  "inversesInOrder S [] d = []"
| "inversesInOrder S (operation # rest) d =
    (case fst (executeOperation S operation d) of
       Inl e \<Rightarrow> []
     | Inr (d', None) \<Rightarrow> inversesInOrder S rest d'
     | Inr (d', Some undoOp) \<Rightarrow> undoOp # inversesInOrder S rest d')"

fun secondaryErrors :: "'d surface \<Rightarrow> inverse list \<Rightarrow> 'd \<Rightarrow> error list" where
  "secondaryErrors S [] d = []"
| "secondaryErrors S (undoOp # rest) d =
    (case runInverse S undoOp d of
       Inl undoError \<Rightarrow> undoError # secondaryErrors S rest d
     | Inr d' \<Rightarrow> secondaryErrors S rest d')"

text \<open>Documents and batches for the examples.\<close>

definition constantCell :: "jsval \<Rightarrow> refcell" where
  "constantCell v = blankCell\<lparr> cellValue := v, cellFormula := v \<rparr>"

definition formulaCell :: "string \<Rightarrow> jsval \<Rightarrow> refcell" where
  "formulaCell f v = blankCell\<lparr> cellValue := v, cellFormula := JStr f \<rparr>"

definition sampleCalc :: "string \<Rightarrow> jsval" where
  "sampleCalc f = (if f = ''=1+1'' then JNum 2 else JStr ''#NAME?'')"

definition sampleSheet :: refdoc where
  "sampleSheet =
     \<lparr> sheets = [(''Sheet1'', JNull)], activeSheet = ''Sheet1'',
       grid = [[formulaCell ''=1+1'' (JNum 2), constantCell (JNum 10)],
               [constantCell (JStr ''x''), constantCell (JNum 20)],
               [blankCell, blankCell]],
       charts = [(''chart7'', \<lparr> chartType = JStr ''Line'', chartSource = ''A1:B2'',
                                chartTitle = JStr ''Totals'', chartPosition = [] \<rparr>)],
       pivotTables = [], conditionalFormats = [], autoFilter = None, nextId = 8 \<rparr>"

definition descriptor :: "string \<Rightarrow> string \<Rightarrow> jsval \<Rightarrow> jsval \<Rightarrow> ExcelOperation" where
  "descriptor ty tgt v opts = \<lparr> optype = ty, target = tgt, opvalue = v, options = opts \<rparr>"

definition unknownBatch :: "ExcelOperation list" where
  "unknownBatch =
     [descriptor ''cell_edit'' ''B2'' (JNum 21) JUndefined,
      descriptor ''merge_cells'' ''A1:B1'' JUndefined JUndefined,
      descriptor ''cell_edit'' ''B1'' (JNum 11) JUndefined]"

definition earlierBatch :: "ExcelOperation list" where
  "earlierBatch = [descriptor ''cell_edit'' ''B1'' (JNum 11) JUndefined]"

definition inertBatch :: "ExcelOperation list" where
  "inertBatch =
     [descriptor ''merge_cells'' ''A1:B1'' JUndefined JUndefined,
      descriptor ''CELL_EDIT'' ''A2'' (JNum 3) JUndefined]"


definition formulaEdit :: "ExcelOperation list" where
  "formulaEdit = [descriptor ''cell_edit'' ''A1'' (JNum 5) JUndefined]"


definition badEdit :: ExcelOperation where
  "badEdit = descriptor ''cell_edit'' ''bad address'' (JNum 2) JUndefined"

definition unnamedSheet :: ExcelOperation where
  "unnamedSheet = descriptor ''sheet_create'' [] JUndefined JUndefined"


definition scenarioBefore :: "ExcelOperation list" where
  "scenarioBefore = [descriptor ''cell_edit'' ''B1'' (JNum 1) JUndefined]"

definition scenarioAfter :: "ExcelOperation list" where
  "scenarioAfter = [descriptor ''cell_edit'' ''B2'' (JNum 9) JUndefined]"

definition sheetThenEdit :: "ExcelOperation list" where
  "sheetThenEdit = [descriptor ''cell_edit'' ''B1'' (JNum 1) JUndefined, unnamedSheet]"

definition chartOptions :: jsval where
  "chartOptions =
     JObj [(''type'', JStr ''Pie''), (''title'', JStr ''Share''),
           (''position'', JObj [(''left'', JNum 10), (''top'', JNum 0)])]"

definition pivotOptions :: jsval where
  "pivotOptions =
     JObj [(''name'', JStr ''ByLabel''), (''destination'', JStr ''A3''),
           (''rowFields'', JArr [JStr ''x''])]"

definition oneCell :: refdoc where
  "oneCell =
     \<lparr> sheets = [(''Sheet1'', JNull)], activeSheet = ''Sheet1'', grid = [[blankCell]],
       charts = [], pivotTables = [], conditionalFormats = [], autoFilter = None, nextId = 1 \<rparr>"

definition numberedEdits :: "nat \<Rightarrow> call list" where
  "numberedEdits n =
     map (\<lambda>k. ExecuteOperations [descriptor ''cell_edit'' ''A1'' (JNum (int k)) JUndefined])
       [1..<Suc n]"










definition offGrid :: "refdoc \<Rightarrow> refdoc" where
  "offGrid d = d\<lparr> grid := [] \<rparr>"





section \<open>Properties of isValidRange\<close>

lemma star_cons_iff:
  "c # w \<in> star A \<longleftrightarrow> (\<exists>u v. w = u @ v \<and> c # u \<in> A \<and> v \<in> star A)"
proof
  assume "c # w \<in> star A"
  then show "\<exists>u v. w = u @ v \<and> c # u \<in> A \<and> v \<in> star A"
  proof (induction "c # w" rule: star.induct)
    case (star_step u v)
    show ?case
    proof (cases u)
      case Nil
      with star_step show ?thesis by simp
    next
      case (Cons a u')
      with star_step show ?thesis by auto
    qed
  qed
next
  assume "\<exists>u v. w = u @ v \<and> c # u \<in> A \<and> v \<in> star A"
  then obtain u v where "w = u @ v" "c # u \<in> A" "v \<in> star A" by blast
  then show "c # w \<in> star A" using star.star_step [of "c # u" A v] by simp
qed

lemma star_CharRange: "w \<in> star {[c] | c. lo \<le> c \<and> c \<le> hi} \<longleftrightarrow> (\<forall>c\<in>set w. lo \<le> c \<and> c \<le> hi)"
proof (induction w)
  case Nil
  show ?case by (simp add: star.star_empty)
next
  case (Cons a w)
  then show ?case by (auto simp: star_cons_iff)
qed

lemma lang_OneOrMore_Class:
  "w \<in> lang (OneOrMore (Class a b)) \<longleftrightarrow> w \<noteq> [] \<and> (\<forall>c\<in>set w. of_char a \<le> c \<and> c \<le> of_char b)"
proof (cases w)
  case Nil
  then show ?thesis by (simp add: OneOrMore_def Class_def)
next
  case (Cons x xs)
  have "x # xs \<in> lang (OneOrMore (Class a b)) \<longleftrightarrow>
        (of_char a \<le> x \<and> x \<le> of_char b) \<and> xs \<in> star (lang (CharRange (of_char a) (of_char b)))"
  proof
    assume "x # xs \<in> lang (OneOrMore (Class a b))"
    then show "(of_char a \<le> x \<and> x \<le> of_char b) \<and> xs \<in> star (lang (CharRange (of_char a) (of_char b)))"
      by (auto simp: OneOrMore_def Class_def Cons_eq_append_conv)
  next
    assume r: "(of_char a \<le> x \<and> x \<le> of_char b) \<and> xs \<in> star (lang (CharRange (of_char a) (of_char b)))"
    have "x # xs = [x] @ xs" by simp
    moreover have "[x] \<in> lang (Class a b)" using r by (simp add: Class_def)
    moreover have "xs \<in> lang (Star (Class a b))" using r by (simp add: Class_def)
    ultimately show "x # xs \<in> lang (OneOrMore (Class a b))"
      unfolding OneOrMore_def lang.simps(4) by blast
  qed
  then show ?thesis using Cons by (simp add: star_CharRange)
qed

lemma lang_cell:
  "w \<in> lang (Concat (OneOrMore (Class CHR ''A'' CHR ''Z'')) (OneOrMore (Class CHR ''0'' CHR ''9''))) \<longleftrightarrow> cellReference w"
  unfolding cellReference_def letters_def digits_def lang.simps(4) mem_Collect_eq lang_OneOrMore_Class
  by blast

lemma lang_Lit: "w \<in> lang (Lit c) \<longleftrightarrow> w = [of_char c]"
  by (auto simp: Lit_def)

lemma lang_Optional: "w \<in> lang (Optional r) \<longleftrightarrow> w = [] \<or> w \<in> lang r"
  by (auto simp: Optional_def)

lemma lang_Concat: "w \<in> lang (Concat r s) \<longleftrightarrow> (\<exists>u v. w = u @ v \<and> u \<in> lang r \<and> v \<in> lang s)"
  by auto

lemma lang_rangePattern: "w \<in> lang rangePattern \<longleftrightarrow> rangeShape w"
proof -
  let ?L = "OneOrMore (Class CHR ''A'' CHR ''Z'')"
  let ?D = "OneOrMore (Class CHR ''0'' CHR ''9'')"
  let ?tail = "Optional (Concat (Lit CHR '':'') (Optional (Concat ?L ?D)))"
  have tail: "v \<in> lang ?tail \<longleftrightarrow>
      v = [] \<or> v = codePoints '':'' \<or> (\<exists>b. v = codePoints '':'' @ b \<and> cellReference b)" for v
    unfolding lang_Optional lang_Concat [of _ "Lit CHR '':''"] lang_Lit lang_cell
    by (auto simp: codePoints_def)
  have "w \<in> lang rangePattern \<longleftrightarrow>
      (\<exists>ls ds v. w = ls @ ds @ v \<and> letters ls \<and> digits ds \<and> v \<in> lang ?tail)"
    unfolding rangePattern_def lang_Concat [of _ ?L] lang_Concat [of _ ?D] lang_OneOrMore_Class
      letters_def digits_def
    by blast
  also have "\<dots> \<longleftrightarrow> (\<exists>a v. w = a @ v \<and> cellReference a \<and> v \<in> lang ?tail)"
    unfolding cellReference_def by (metis append.assoc)
  also have "\<dots> \<longleftrightarrow> rangeShape w"
    unfolding rangeShape_def tail by auto
  finally show ?thesis .
qed


lemma nullable_lang: "nullable r \<longleftrightarrow> [] \<in> lang r"
  by (induction r) (auto intro: star.star_empty)

lemma deriv_lang: "w \<in> lang (deriv c r) \<longleftrightarrow> c # w \<in> lang r"
proof (induction r arbitrary: w)
  case (Concat r s)
  show ?case
  proof (cases "nullable r")
    case True
    then show ?thesis
      using Concat by (auto simp: nullable_lang Cons_eq_append_conv) 
  next
    case False
    then show ?thesis
      using Concat by (auto simp: nullable_lang Cons_eq_append_conv)
  qed
next
  case (Star r)
  then show ?case by (auto simp: star_cons_iff)
qed auto

lemma regexTest_lang: "regexTest r w \<longleftrightarrow> w \<in> lang r"
  by (induction w arbitrary: r) (simp_all add: nullable_lang deriv_lang)

lemma cellReference_chars:
  "cellReference w \<Longrightarrow> c \<in> set w \<Longrightarrow> of_char CHR ''0'' \<le> c \<and> c \<le> of_char CHR ''Z''"
  by (fastforce simp: cellReference_def letters_def digits_def)

lemma cellReference_has_digit:
  "cellReference w \<Longrightarrow> \<exists>c\<in>set w. of_char CHR ''0'' \<le> c \<and> c \<le> of_char CHR ''9''"
  unfolding cellReference_def digits_def
  by (metis Un_iff last_in_set set_append)

lemma cellReference_no_bang: "cellReference w \<Longrightarrow> of_char CHR ''!'' \<notin> set w"
  by (fastforce simp: cellReference_def letters_def digits_def)

lemma rangeShape_no_bang: "rangeShape w \<Longrightarrow> of_char CHR ''!'' \<notin> set w"
  unfolding rangeShape_def
  using cellReference_no_bang by (auto simp: codePoints_def)

lemma rangeShape_has_digit:
  "rangeShape w \<Longrightarrow> \<exists>c\<in>set w. of_char CHR ''0'' \<le> c \<and> c \<le> of_char CHR ''9''"
  unfolding rangeShape_def
  using cellReference_has_digit by fastforce

lemma toUpperCase_ascii:
  "c \<in> set s \<Longrightarrow> c < 128 \<Longrightarrow> upperAscii c \<in> set (toUpperCase special s)"
  unfolding toUpperCase_def by (induction s) auto

lemma toUpperCase_keeps_bang:
  "of_char CHR ''!'' \<in> set s \<Longrightarrow> of_char CHR ''!'' \<in> set (toUpperCase special s)"
  using toUpperCase_ascii [of "of_char CHR ''!''" s special] by (simp add: upperAscii_def)

lemmas isValidRange_eval =
  isValidRange_def codePoints_def toUpperCase_def upperAscii_def rangePattern_def
  OneOrMore_def Optional_def Class_def Lit_def

text \<open>
  C10. \<open>isValidRange\<close> is a total predicate of its string argument. It holds exactly
  when the upper-cased string matches \<open>/^[A-Z]+[0-9]+(:([A-Z]+[0-9]+)?)?$/\<close>, that is,
  when the upper-cased string is a cell reference, optionally followed by a colon,
  optionally followed by a second cell reference. It accepts \<open>a1\<close>, \<open>A1:B2\<close> and the
  dangling-colon form \<open>A1:\<close>; it rejects every string that contains \<open>!\<close> (every
  sheet-qualified address such as \<open>Sheet1!A1\<close>) and every string whose upper-cased
  form has no digit (every whole-column reference such as \<open>A:B\<close>).
\<close>

theorem isValidRange_matches_rangePattern:
  "(isValidRange special s \<longleftrightarrow> toUpperCase special s \<in> lang rangePattern)
   \<and> (isValidRange special s \<longleftrightarrow> rangeShape (toUpperCase special s))
   \<and> isValidRange special (codePoints ''a1'')
   \<and> isValidRange special (codePoints ''A1:B2'')
   \<and> isValidRange special (codePoints ''A1:'')
   \<and> (of_char CHR ''!'' \<in> set s \<longrightarrow> \<not> isValidRange special s)
   \<and> \<not> isValidRange special (codePoints ''Sheet1!A1'')
   \<and> ((\<forall>c\<in>set (toUpperCase special s). \<not> (of_char CHR ''0'' \<le> c \<and> c \<le> of_char CHR ''9''))
        \<longrightarrow> \<not> isValidRange special s)
   \<and> \<not> isValidRange special (codePoints ''A:B'')"
proof -
  have sem: "isValidRange special s \<longleftrightarrow> toUpperCase special s \<in> lang rangePattern"
    by (simp add: isValidRange_def regexTest_lang)
  have shape: "isValidRange special s \<longleftrightarrow> rangeShape (toUpperCase special s)"
    by (simp add: sem lang_rangePattern)
  have a1: "isValidRange special (codePoints ''a1'')"
    by (simp add: isValidRange_eval)
  have a1b2: "isValidRange special (codePoints ''A1:B2'')"
    by (simp add: isValidRange_eval)
  have a1c: "isValidRange special (codePoints ''A1:'')"
    by (simp add: isValidRange_eval)
  have bang: "of_char CHR ''!'' \<in> set s \<longrightarrow> \<not> isValidRange special s"
    using shape rangeShape_no_bang toUpperCase_keeps_bang by blast
  have sheet: "\<not> isValidRange special (codePoints ''Sheet1!A1'')"
    by (simp add: isValidRange_eval)
  have nodigit: "(\<forall>c\<in>set (toUpperCase special s). \<not> (of_char CHR ''0'' \<le> c \<and> c \<le> of_char CHR ''9''))
        \<longrightarrow> \<not> isValidRange special s"
    using shape rangeShape_has_digit by blast
  have ab: "\<not> isValidRange special (codePoints ''A:B'')"
    by (simp add: isValidRange_eval)
  show ?thesis
    using sem shape a1 a1b2 a1c bang sheet nodigit ab by blast
qed

theorem isValidRange_witness:
  "of_char CHR ''!'' \<in> set (codePoints ''Book!C3'')
   \<and> \<not> isValidRange (\<lambda>c. [c]) (codePoints ''Book!C3'')
   \<and> toUpperCase (\<lambda>c. [c]) (codePoints ''b:d'') = codePoints ''B:D''
   \<and> \<not> isValidRange (\<lambda>c. [c]) (codePoints ''b:d'')
   \<and> isValidRange (\<lambda>c. [c]) (codePoints ''ab12:cd34'')
   \<and> rangeShape (toUpperCase (\<lambda>c. [c]) (codePoints ''ab12:cd34''))"
proof -
  have h1: "of_char CHR ''!'' \<in> set (codePoints ''Book!C3'')"
    by (simp add: codePoints_def)
  have h2: "toUpperCase (\<lambda>c. [c]) (codePoints ''b:d'') = codePoints ''B:D''"
    by (simp add: codePoints_def toUpperCase_def upperAscii_def)
  have h3: "\<forall>c\<in>set (toUpperCase (\<lambda>c. [c]) (codePoints ''b:d'')).
              \<not> (of_char CHR ''0'' \<le> c \<and> c \<le> of_char CHR ''9'')"
    by (simp add: h2) (simp add: codePoints_def)
  have h4: "isValidRange (\<lambda>c. [c]) (codePoints ''ab12:cd34'')"
    by (simp add: isValidRange_eval)
  show ?thesis
    using h1 h2 h3 h4
      isValidRange_matches_rangePattern [of "\<lambda>c. [c]" "codePoints ''Book!C3''"]
      isValidRange_matches_rangePattern [of "\<lambda>c. [c]" "codePoints ''b:d''"]
      isValidRange_matches_rangePattern [of "\<lambda>c. [c]" "codePoints ''ab12:cd34''"]
    by blast
qed

section \<open>The undo history\<close>

lemma addToUndoStack_undoStack:
  "undoStack (addToUndoStack u st) =
     (if length (undoStack st) < maxUndoSteps then undoStack st @ [u] else tl (undoStack st @ [u]))"
  by (auto simp: addToUndoStack_def Let_def)

lemma addToUndoStack_bounded:
  "length (undoStack st) \<le> maxUndoSteps \<Longrightarrow> length (undoStack (addToUndoStack u st)) \<le> maxUndoSteps"
  by (simp add: addToUndoStack_undoStack)

lemma executeOperations_bounded:
  assumes "length (undoStack st) \<le> maxUndoSteps"
  shows "length (undoStack (fst (snd (executeOperations S ops st)))) \<le> maxUndoSteps"
proof (cases "tryLoop S ops (doc st) []")
  case (fields r d us out)
  show ?thesis
  proof (cases r)
    case None
    with fields assms show ?thesis
      using addToUndoStack_bounded [of "st\<lparr>doc := d\<rparr>" us]
      by (simp add: executeOperations_def)
  next
    case (Some e)
    with fields assms show ?thesis
      by (simp add: executeOperations_def split: prod.splits)
  qed
qed

lemma undo_bounded:
  assumes "length (undoStack st) \<le> maxUndoSteps"
  shows "length (undoStack (snd (undo S st))) \<le> maxUndoSteps"
  using assms by (auto simp: undo_def Let_def split: prod.splits option.splits)

lemma perform_bounded:
  "length (undoStack st) \<le> maxUndoSteps \<Longrightarrow> length (undoStack (perform S c st)) \<le> maxUndoSteps"
  by (cases c) (simp_all add: executeOperations_bounded undo_bounded)

lemma session_bounded:
  "length (undoStack st) \<le> maxUndoSteps \<Longrightarrow> length (undoStack (session S cs st)) \<le> maxUndoSteps"
  by (induction cs arbitrary: st) (simp_all add: perform_bounded)

text \<open>
  C4. The undo history never holds more than 50 entries: whatever calls a client makes
  on a new service, the stack has at most 50 entries afterwards. A push onto fewer
  than 50 entries appends; a push onto 50 entries drops the oldest (the first) and
  appends, leaving 50; the pushed entry is always the newest of the stack, and the
  push cannot fail (it returns the new state).
\<close>

theorem undoStack_capacity:
  "maxUndoSteps = 50
   \<and> length (undoStack (session S calls (newService d))) \<le> 50
   \<and> (length (undoStack st) < 50 \<longrightarrow> undoStack (addToUndoStack u st) = undoStack st @ [u])
   \<and> (length (undoStack st) = 50 \<longrightarrow>
        undoStack (addToUndoStack u st) = tl (undoStack st) @ [u]
        \<and> length (undoStack (addToUndoStack u st)) = 50)
   \<and> last (undoStack (addToUndoStack u st)) = u"
proof -
  have m: "maxUndoSteps = 50" by (simp add: maxUndoSteps_def)
  have "length (undoStack (session S calls (newService d))) \<le> maxUndoSteps"
    by (rule session_bounded) (simp add: newService_def)
  then have reach: "length (undoStack (session S calls (newService d))) \<le> 50"
    by (simp add: m)
  have below: "length (undoStack st) < 50 \<longrightarrow> undoStack (addToUndoStack u st) = undoStack st @ [u]"
    by (simp add: addToUndoStack_undoStack m)
  have full: "length (undoStack st) = 50 \<longrightarrow>
        undoStack (addToUndoStack u st) = tl (undoStack st) @ [u]
        \<and> length (undoStack (addToUndoStack u st)) = 50"
  proof
    assume l: "length (undoStack st) = 50"
    then have "undoStack st \<noteq> []" by auto
    with l show "undoStack (addToUndoStack u st) = tl (undoStack st) @ [u]
        \<and> length (undoStack (addToUndoStack u st)) = 50"
      by (simp add: addToUndoStack_undoStack m)
  qed
  have newest: "last (undoStack (addToUndoStack u st)) = u"
  proof (cases "undoStack st")
    case Nil
    then show ?thesis by (simp add: addToUndoStack_undoStack m)
  next
    case (Cons x xs)
    then show ?thesis by (simp add: addToUndoStack_undoStack m)
  qed
  show ?thesis using m reach below full newest by blast
qed

theorem undoStack_capacity_witness:
  "length (undoStack (session (refSurface sampleCalc) (numberedEdits 51) (newService oneCell))) \<le> 50
   \<and> undoStack (session (refSurface sampleCalc) (numberedEdits 51) (newService oneCell)) =
       map (\<lambda>k. [UndoSetCellValue ''A1'' (JArr [JArr [JNum (int k)]])]) [1..<51]
   \<and> undoStack (addToUndoStack [UndoInsertRows ''2:2'']
         \<lparr> doc = oneCell, undoStack = replicate 50 [UndoInsertColumns ''A:A''], redoStack = [] \<rparr>) =
       replicate 49 [UndoInsertColumns ''A:A''] @ [[UndoInsertRows ''2:2'']]
   \<and> undoStack (addToUndoStack [UndoInsertRows ''2:2'']
         \<lparr> doc = oneCell, undoStack = replicate 49 [UndoInsertColumns ''A:A''], redoStack = [] \<rparr>) =
       replicate 49 [UndoInsertColumns ''A:A''] @ [[UndoInsertRows ''2:2'']]"
proof -
  let ?full = "\<lparr> doc = oneCell, undoStack = replicate 50 [UndoInsertColumns ''A:A''], redoStack = [] \<rparr>"
  let ?room = "\<lparr> doc = oneCell, undoStack = replicate 49 [UndoInsertColumns ''A:A''], redoStack = [] \<rparr>"
  have run: "undoStack (session (refSurface sampleCalc) (numberedEdits 51) (newService oneCell)) =
       map (\<lambda>k. [UndoSetCellValue ''A1'' (JArr [JArr [JNum (int k)]])]) [1..<51]"
    by code_simp
  have full: "length (undoStack ?full) = 50" by simp
  have room: "length (undoStack ?room) < 50" by simp
  have tl: "tl (replicate 50 [UndoInsertColumns ''A:A'']) = replicate 49 [UndoInsertColumns ''A:A'']"
    by (simp add: numeral_eq_Suc)
  show ?thesis
    using run full room tl
      undoStack_capacity [of "refSurface sampleCalc" "numberedEdits 51" oneCell ?full "[UndoInsertRows ''2:2'']"]
      undoStack_capacity [of "refSurface sampleCalc" "numberedEdits 51" oneCell ?room "[UndoInsertRows ''2:2'']"]
    by simp
qed

section \<open>The dispatcher and the loop of the executor\<close>

lemma executeOperation_unknown:
  "optype operation \<notin> set recognizedTypes \<Longrightarrow>
   executeOperation S operation d =
     (Inr (d, None), [ConsoleWarn (''Unknown operation type: '' @ optype operation)])"
  by (simp add: executeOperation_def recognizedTypes_def)

lemma handled_Some:
  "fst (handled r) = Inr (d', u) \<Longrightarrow> u \<noteq> None"
  by (auto simp: handled_def split: sum.splits prod.splits)

lemma executeOperation_recognized:
  "optype operation \<in> set recognizedTypes \<Longrightarrow>
   fst (executeOperation S operation d) = Inr (d', u) \<Longrightarrow> u \<noteq> None"
  unfolding executeOperation_def
  by (auto simp: recognizedTypes_def dest: handled_Some split: if_splits)

lemma tryLoop_append:
  "tryLoop S (xs @ ys) d us =
    (case tryLoop S xs d us of
       (Some e, d', us', out) \<Rightarrow> (Some e, d', us', out)
     | (None, d', us', out) \<Rightarrow>
         (case tryLoop S ys d' us' of (r, d'', us'', out') \<Rightarrow> (r, d'', us'', out @ out')))"
proof (induction xs arbitrary: d us)
  case Nil
  show ?case by (simp split: prod.splits)
next
  case (Cons x xs)
  show ?case
    by (simp add: Cons split: prod.splits sum.splits option.splits)
qed

lemma tryLoop_accumulates:
  "tryLoop S ops d us0 = (r, d', us, out) \<Longrightarrow>
   \<exists>new. us = new @ us0 \<and> tryLoop S ops d [] = (r, d', new, out)"
proof (induction ops arbitrary: d us0 r d' us out)
  case Nil
  then show ?case by simp
next
  case (Cons x xs)
  show ?case
  proof (cases "executeOperation S x d")
    case (Pair res o1)
    show ?thesis
    proof (cases res)
      case (Inl e)
      with Pair Cons.prems show ?thesis by auto
    next
      case (Inr p)
      obtain d1 u where p: "p = (d1, u)" by (cases p)
      let ?us1 = "case u of Some v \<Rightarrow> v # us0 | None \<Rightarrow> us0"
      let ?n1 = "case u of Some v \<Rightarrow> [v] | None \<Rightarrow> []"
      obtain r2 d2 us2 o2 where t: "tryLoop S xs d1 ?us1 = (r2, d2, us2, o2)"
        by (cases "tryLoop S xs d1 ?us1")
      from Cons.IH [OF t] obtain new where
        n: "us2 = new @ ?us1" "tryLoop S xs d1 [] = (r2, d2, new, o2)" by blast
      obtain r3 d3 us3 o3 where t3: "tryLoop S xs d1 ?n1 = (r3, d3, us3, o3)"
        by (cases "tryLoop S xs d1 ?n1")
      from Cons.IH [OF t3] obtain new3 where
        n3: "us3 = new3 @ ?n1" "tryLoop S xs d1 [] = (r3, d3, new3, o3)" by blast
      from n(2) n3(2) have same: "r3 = r2" "d3 = d2" "new3 = new" "o3 = o2" by simp_all
      have res: "r = r2" "d' = d2" "us = us2" "out = o1 @ o2"
        using Cons.prems Pair Inr p t by simp_all
      have "us = (new @ ?n1) @ us0" using res n(1) by (cases u) simp_all
      moreover have "tryLoop S (x # xs) d [] = (r, d', new @ ?n1, out)"
        using Pair Inr p t3 n3 same res by (cases u) simp_all
      ultimately show ?thesis by blast
    qed
  qed
qed


lemma tryLoop_step:
  "tryLoop S (x # xs) d us =
    (case executeOperation S x d of
       (Inl e, out) \<Rightarrow> (Some e, d, us, out)
     | (Inr (d', u), out) \<Rightarrow>
         (case tryLoop S xs d' (case u of Some v \<Rightarrow> v # us | None \<Rightarrow> us) of
            (r, d'', us', out') \<Rightarrow> (r, d'', us', out @ out')))"
  by simp

lemma tryLoop_collects:
  "tryLoop S ops d us0 = (None, d', us, out) \<Longrightarrow>
   length us = length us0 + length (filter (\<lambda>operation. optype operation \<in> set recognizedTypes) ops)"
proof (induction ops arbitrary: d us0 out)
  case Nil
  then show ?case by simp
next
  case (Cons x xs)
  obtain res o1 where e: "executeOperation S x d = (res, o1)" by (cases "executeOperation S x d")
  show ?case
  proof (cases res)
    case (Inl err)
    with e Cons.prems show ?thesis by simp
  next
    case (Inr p)
    obtain d1 u where p: "p = (d1, u)" by (cases p)
    let ?us1 = "case u of Some v \<Rightarrow> v # us0 | None \<Rightarrow> us0"
    obtain r2 d2 us2 o2 where t: "tryLoop S xs d1 ?us1 = (r2, d2, us2, o2)"
      by (cases "tryLoop S xs d1 ?us1")
    have r: "r2 = None" "us2 = us" "d2 = d'" using Cons.prems e Inr p t by simp_all
    have len: "length us = length ?us1 + length (filter (\<lambda>operation. optype operation \<in> set recognizedTypes) xs)"
      using Cons.IH [of d1 ?us1 o2] t r by simp
    show ?thesis
    proof (cases "optype x \<in> set recognizedTypes")
      case True
      then have "u \<noteq> None"
        using executeOperation_recognized [of x S d d1 u] e Inr p by simp
      with len True show ?thesis by (cases u) simp_all
    next
      case False
      then have "u = None"
        using executeOperation_unknown [of x S d] e Inr p by simp
      with len False show ?thesis by simp
    qed
  qed
qed

lemma rollback_exact:
  "tryLoop S ops d0 us0 = (r, d, us, out) \<Longrightarrow> exactInverses S ops d0 \<Longrightarrow>
   rollback S us d = rollback S us0 d0"
proof (induction ops arbitrary: d0 us0 out)
  case Nil
  then show ?case by simp
next
  case (Cons x xs)
  obtain res o1 where e: "executeOperation S x d0 = (res, o1)" by (cases "executeOperation S x d0")
  show ?case
  proof (cases res)
    case (Inl err)
    with e Cons.prems show ?thesis by simp
  next
    case (Inr p)
    obtain d1 u where p: "p = (d1, u)" by (cases p)
    let ?us1 = "case u of Some v \<Rightarrow> v # us0 | None \<Rightarrow> us0"
    obtain r2 d2 us2 o2 where t: "tryLoop S xs d1 ?us1 = (r2, d2, us2, o2)"
      by (cases "tryLoop S xs d1 ?us1")
    have res: "r2 = r" "d2 = d" "us2 = us" using Cons.prems(1) e Inr p t by simp_all
    have ex: "exactInverses S xs d1" using Cons.prems(2) e Inr p by (cases u) auto
    have "rollback S us d = rollback S ?us1 d1"
      using Cons.IH [of d1 ?us1 o2] t res ex by simp
    also have "\<dots> = rollback S us0 d0"
      using Cons.prems(2) e Inr p by (cases u) simp_all
    finally show ?thesis .
  qed
qed


lemma tryLoop_fails_at:
  assumes "tryLoop S before d0 us0 = (None, d, us, out)"
    and "executeOperation S bad d = (Inl e, out')"
  shows "tryLoop S (before @ bad # after) d0 us0 = (Some e, d, us, out @ out')"
  using assms by (simp add: tryLoop_append)

lemma executeOperations_failure:
  assumes "tryLoop S before (doc st) [] = (None, d, us, out)"
    and "executeOperation S bad d = (Inl e, out')"
  shows "executeOperations S (before @ bad # after) st =
           (Inl e, st\<lparr> doc := fst (rollback S us d) \<rparr>,
            out @ out' @ [ConsoleError ''Failed to execute operations:'' e] @ snd (rollback S us d))"
  using tryLoop_fails_at [OF assms, of after]
  by (simp add: executeOperations_def split: prod.splits)

lemma tryLoop_unknown:
  "\<forall>operation\<in>set ops. optype operation \<notin> set recognizedTypes \<Longrightarrow>
   tryLoop S ops d us =
     (None, d, us, map (\<lambda>operation. ConsoleWarn (''Unknown operation type: '' @ optype operation)) ops)"
  by (induction ops) (simp_all add: executeOperation_unknown)


lemma executeOperations_depends:
  "tryLoop S ops (doc st) [] = (r, d, us, out) \<Longrightarrow>
   tryLoop S ops' (doc st) [] = (r, d, us, out') \<Longrightarrow>
   fst (executeOperations S ops st) = fst (executeOperations S ops' st)
   \<and> fst (snd (executeOperations S ops st)) = fst (snd (executeOperations S ops' st))"
  by (cases r) (simp_all add: executeOperations_def split: prod.splits)

lemma tryLoop_skips_unknown:
  assumes "optype operation \<notin> set recognizedTypes"
    and "tryLoop S (before @ after) d0 us0 = (r, d, us, out)"
  shows "\<exists>out'. tryLoop S (before @ operation # after) d0 us0 = (r, d, us, out')"
proof -
  obtain r1 d1 us1 o1 where b: "tryLoop S before d0 us0 = (r1, d1, us1, o1)"
    by (cases "tryLoop S before d0 us0")
  show ?thesis
  proof (cases r1)
    case (Some e)
    with b assms(2) show ?thesis by (auto simp: tryLoop_append)
  next
    case None
    obtain r2 d2 us2 o2 where a: "tryLoop S after d1 us1 = (r2, d2, us2, o2)"
      by (cases "tryLoop S after d1 us1")
    from b None a assms(2) have "r = r2" "d = d2" "us = us2"
      by (simp_all add: tryLoop_append)
    with b None a show ?thesis
      by (simp add: tryLoop_append executeOperation_unknown [OF assms(1)])
  qed
qed

text \<open>
  C5. A descriptor whose type is none of the dispatcher's \<open>case\<close> labels (the spec's
  twelve kinds, with insert and delete counted per row and column: fourteen labels)
  makes \<open>executeOperation\<close> write a warning to the console and return \<open>null\<close> with the
  document untouched; the loop goes on with the rest of the batch, with the same
  document and the same list of inverses; and the batch ends as it would without the
  descriptor: same outcome, same document, same undo history.
\<close>

theorem unknown_kind_is_noop:
  assumes "optype operation \<notin> set recognizedTypes"
  shows "executeOperation S operation d =
           (Inr (d, None), [ConsoleWarn (''Unknown operation type: '' @ optype operation)])
         \<and> tryLoop S (operation # rest) d us =
             (case tryLoop S rest d us of
                (r, d', us', out) \<Rightarrow>
                  (r, d', us', ConsoleWarn (''Unknown operation type: '' @ optype operation) # out))
         \<and> fst (executeOperations S (before @ operation # after) st) =
             fst (executeOperations S (before @ after) st)
         \<and> fst (snd (executeOperations S (before @ operation # after) st)) =
             fst (snd (executeOperations S (before @ after) st))"
proof -
  have one: "executeOperation S operation d =
           (Inr (d, None), [ConsoleWarn (''Unknown operation type: '' @ optype operation)])"
    by (rule executeOperation_unknown [OF assms])
  have loop: "tryLoop S (operation # rest) d us =
             (case tryLoop S rest d us of
                (r, d', us', out) \<Rightarrow>
                  (r, d', us', ConsoleWarn (''Unknown operation type: '' @ optype operation) # out))"
    by (simp add: one split: prod.splits)
  obtain r d1 us1 out where t: "tryLoop S (before @ after) (doc st) [] = (r, d1, us1, out)"
    by (cases "tryLoop S (before @ after) (doc st) []")
  from tryLoop_skips_unknown [OF assms t] obtain out' where
    t': "tryLoop S (before @ operation # after) (doc st) [] = (r, d1, us1, out')" by blast
  from executeOperations_depends [OF t' t] one loop show ?thesis by blast
qed

theorem unknown_kind_is_noop_witness:
  "optype (descriptor ''merge_cells'' ''A1:B1'' JUndefined JUndefined) \<notin> set recognizedTypes
   \<and> executeOperation (refSurface sampleCalc)
        (descriptor ''merge_cells'' ''A1:B1'' JUndefined JUndefined) sampleSheet =
       (Inr (sampleSheet, None), [ConsoleWarn ''Unknown operation type: merge_cells''])
   \<and> executeOperations (refSurface sampleCalc) unknownBatch (newService sampleSheet) =
       (Inr (),
        \<lparr> doc = sampleSheet\<lparr> grid :=
                  [[formulaCell ''=1+1'' (JNum 2), constantCell (JNum 11)],
                   [constantCell (JStr ''x''), constantCell (JNum 21)],
                   [blankCell, blankCell]] \<rparr>,
          undoStack = [[UndoSetCellValue ''B1'' (JArr [JArr [JNum 10]]),
                        UndoSetCellValue ''B2'' (JArr [JArr [JNum 20]])]],
          redoStack = [] \<rparr>,
        [ConsoleWarn ''Unknown operation type: merge_cells''])"
proof -
  have h: "optype (descriptor ''merge_cells'' ''A1:B1'' JUndefined JUndefined) \<notin> set recognizedTypes"
    by (simp add: descriptor_def recognizedTypes_def)
  have run: "executeOperations (refSurface sampleCalc) unknownBatch (newService sampleSheet) =
       (Inr (),
        \<lparr> doc = sampleSheet\<lparr> grid :=
                  [[formulaCell ''=1+1'' (JNum 2), constantCell (JNum 11)],
                   [constantCell (JStr ''x''), constantCell (JNum 21)],
                   [blankCell, blankCell]] \<rparr>,
          undoStack = [[UndoSetCellValue ''B1'' (JArr [JArr [JNum 10]]),
                        UndoSetCellValue ''B2'' (JArr [JArr [JNum 20]])]],
          redoStack = [] \<rparr>,
        [ConsoleWarn ''Unknown operation type: merge_cells''])"
    by code_simp
  show ?thesis
    using h run
      unknown_kind_is_noop [OF h, of "refSurface sampleCalc" sampleSheet]
    by (simp add: descriptor_def)
qed

text \<open>
  C9. A batch in which no step yields an inverse is a batch whose descriptors all have
  unrecognized types (every handler returns an inverse), the empty batch included.
  \<open>executeOperations\<close> then succeeds and leaves the whole state as it was: the
  document, the undo stack and the redo stack; nothing is pushed, not even an empty
  entry. An \<open>undo()\<close> after it does what it would have done before it: it pops the
  entry of the most recent earlier batch and replays that one.
\<close>

theorem batch_without_inverse_pushes_nothing:
  "(tryLoop S ops (doc st) [] = (None, d, [], out) \<longrightarrow>
      (\<forall>operation\<in>set ops. optype operation \<notin> set recognizedTypes))
   \<and> ((\<forall>operation\<in>set ops. optype operation \<notin> set recognizedTypes) \<longrightarrow>
        executeOperations S ops st =
          (Inr (), st,
           map (\<lambda>operation. ConsoleWarn (''Unknown operation type: '' @ optype operation)) ops)
        \<and> undo S (fst (snd (executeOperations S ops st))) = undo S st
        \<and> (\<forall>earlier entry. undoStack st = earlier @ [entry] \<longrightarrow>
             snd (undo S (fst (snd (executeOperations S ops st)))) =
               st\<lparr> undoStack := earlier, doc := snd (runComposite S entry (doc st)) \<rparr>))"
proof -
  have only: "tryLoop S ops (doc st) [] = (None, d, [], out) \<longrightarrow>
      (\<forall>operation\<in>set ops. optype operation \<notin> set recognizedTypes)"
  proof
    assume "tryLoop S ops (doc st) [] = (None, d, [], out)"
    from tryLoop_collects [OF this]
    have "filter (\<lambda>operation. optype operation \<in> set recognizedTypes) ops = []" by simp
    then show "\<forall>operation\<in>set ops. optype operation \<notin> set recognizedTypes"
      by (simp add: filter_empty_conv)
  qed
  have frame: "(\<forall>operation\<in>set ops. optype operation \<notin> set recognizedTypes) \<longrightarrow>
        executeOperations S ops st =
          (Inr (), st,
           map (\<lambda>operation. ConsoleWarn (''Unknown operation type: '' @ optype operation)) ops)
        \<and> undo S (fst (snd (executeOperations S ops st))) = undo S st
        \<and> (\<forall>earlier entry. undoStack st = earlier @ [entry] \<longrightarrow>
             snd (undo S (fst (snd (executeOperations S ops st)))) =
               st\<lparr> undoStack := earlier, doc := snd (runComposite S entry (doc st)) \<rparr>)"
  proof
    assume u: "\<forall>operation\<in>set ops. optype operation \<notin> set recognizedTypes"
    have run: "executeOperations S ops st =
          (Inr (), st,
           map (\<lambda>operation. ConsoleWarn (''Unknown operation type: '' @ optype operation)) ops)"
      by (simp add: executeOperations_def tryLoop_unknown [OF u])
    have pop: "snd (undo S st) = st\<lparr> undoStack := earlier, doc := snd (runComposite S entry (doc st)) \<rparr>"
      if "undoStack st = earlier @ [entry]" for earlier entry
      using that by (simp add: undo_def Let_def split: prod.splits option.splits)
    show "executeOperations S ops st =
          (Inr (), st,
           map (\<lambda>operation. ConsoleWarn (''Unknown operation type: '' @ optype operation)) ops)
        \<and> undo S (fst (snd (executeOperations S ops st))) = undo S st
        \<and> (\<forall>earlier entry. undoStack st = earlier @ [entry] \<longrightarrow>
             snd (undo S (fst (snd (executeOperations S ops st)))) =
               st\<lparr> undoStack := earlier, doc := snd (runComposite S entry (doc st)) \<rparr>)"
      using run pop by simp
  qed
  show ?thesis using only frame by blast
qed

theorem batch_without_inverse_pushes_nothing_witness:
  "list_all (\<lambda>operation. optype operation \<notin> set recognizedTypes) inertBatch
   \<and> undoStack (perform (refSurface sampleCalc) (ExecuteOperations earlierBatch) (newService sampleSheet)) =
       [[UndoSetCellValue ''B1'' (JArr [JArr [JNum 10]])]]
   \<and> executeOperations (refSurface sampleCalc) inertBatch
        (perform (refSurface sampleCalc) (ExecuteOperations earlierBatch) (newService sampleSheet)) =
       (Inr (), perform (refSurface sampleCalc) (ExecuteOperations earlierBatch) (newService sampleSheet),
        [ConsoleWarn ''Unknown operation type: merge_cells'',
         ConsoleWarn ''Unknown operation type: CELL_EDIT''])
   \<and> executeOperations (refSurface sampleCalc) []
        (perform (refSurface sampleCalc) (ExecuteOperations earlierBatch) (newService sampleSheet)) =
       (Inr (), perform (refSurface sampleCalc) (ExecuteOperations earlierBatch) (newService sampleSheet), [])
   \<and> undo (refSurface sampleCalc)
        (session (refSurface sampleCalc) [ExecuteOperations earlierBatch, ExecuteOperations inertBatch]
           (newService sampleSheet)) =
       (Inr (), newService sampleSheet)"
proof -
  let ?S = "refSurface sampleCalc"
  let ?st = "perform ?S (ExecuteOperations earlierBatch) (newService sampleSheet)"
  have h: "\<forall>operation\<in>set inertBatch. optype operation \<notin> set recognizedTypes"
    by (simp add: inertBatch_def descriptor_def recognizedTypes_def)
  have h0: "\<forall>operation\<in>set ([] :: ExcelOperation list). optype operation \<notin> set recognizedTypes"
    by simp
  have stack: "undoStack ?st = [[UndoSetCellValue ''B1'' (JArr [JArr [JNum 10]])]]"
    by code_simp
  have undone: "undo ?S ?st = (Inr (), newService sampleSheet)"
    by code_simp
  have warn: "map (\<lambda>operation. ConsoleWarn (''Unknown operation type: '' @ optype operation)) inertBatch =
        [ConsoleWarn ''Unknown operation type: merge_cells'',
         ConsoleWarn ''Unknown operation type: CELL_EDIT'']"
    by (simp add: inertBatch_def descriptor_def)
  show ?thesis
    using h stack undone warn
      batch_without_inverse_pushes_nothing [of ?S inertBatch ?st]
      batch_without_inverse_pushes_nothing [of ?S "[]" ?st]
    by (simp add: list_all_iff)
qed

section \<open>Failure, rollback and undo\<close>

lemma tryLoop_reverse_order:
  "tryLoop S ops d us0 = (r, d', us, out) \<Longrightarrow> us = rev (inversesInOrder S ops d) @ us0"
proof (induction ops arbitrary: d us0 out)
  case Nil
  then show ?case by simp
next
  case (Cons x xs)
  obtain res o1 where e: "executeOperation S x d = (res, o1)" by (cases "executeOperation S x d")
  show ?case
  proof (cases res)
    case (Inl err)
    with e Cons.prems show ?thesis by simp
  next
    case (Inr p)
    obtain d1 u where p: "p = (d1, u)" by (cases p)
    let ?us1 = "case u of Some v \<Rightarrow> v # us0 | None \<Rightarrow> us0"
    obtain r2 d2 us2 o2 where t: "tryLoop S xs d1 ?us1 = (r2, d2, us2, o2)"
      by (cases "tryLoop S xs d1 ?us1")
    have res: "r2 = r" "d2 = d'" "us2 = us" using Cons.prems e Inr p t by simp_all
    have "us = rev (inversesInOrder S xs d1) @ ?us1"
      using Cons.IH [of d1 ?us1 o2] t res by simp
    then show ?thesis using e Inr p by (cases u) simp_all
  qed
qed

lemma rollback_console:
  "snd (rollback S us d) = map (ConsoleError ''Failed to undo operation:'') (secondaryErrors S us d)"
proof (induction us arbitrary: d)
  case Nil
  show ?case by simp
next
  case (Cons u us)
  show ?case
  proof (cases "runInverse S u d")
    case (Inl undoError)
    then show ?thesis
      using Cons [of d] by (cases "rollback S us d") simp
  next
    case (Inr d1)
    then show ?thesis using Cons [of d1] by simp
  qed
qed

lemma rollback_head_first:
  "fst (rollback S (u # rest) d) =
     fst (rollback S rest (case runInverse S u d of Inr d' \<Rightarrow> d' | Inl undoError \<Rightarrow> d))"
  by (simp split: sum.splits prod.splits)


text \<open>
  C2, as amended. When steps \<open>1..k-1\<close> of a batch succeed and step \<open>k\<close> throws,
  \<open>executeOperations\<close> re-raises that error, pushes nothing (the undo and the redo stack
  are untouched), and leaves the document that the rollback produces: the inverses of
  steps \<open>1..k-1\<close> attempted most-recently-applied first, an inverse that throws being
  skipped. The document is the pre-batch document whenever each of those inverses
  exactly reverts its own step.
\<close>

theorem partial_failure_rolls_back:
  assumes "tryLoop S before (doc st) [] = (None, d, us, out)"
    and "fst (executeOperation S bad d) = Inl e"
  shows "fst (executeOperations S (before @ bad # after) st) = Inl e
       \<and> fst (snd (executeOperations S (before @ bad # after) st)) =
           st\<lparr> doc := fst (rollback S (rev (inversesInOrder S before (doc st))) d) \<rparr>
       \<and> undoStack (fst (snd (executeOperations S (before @ bad # after) st))) = undoStack st
       \<and> redoStack (fst (snd (executeOperations S (before @ bad # after) st))) = redoStack st
       \<and> fst (rollback S (u # rest) d') =
           fst (rollback S rest (case runInverse S u d' of Inr d'' \<Rightarrow> d'' | Inl undoError \<Rightarrow> d'))
       \<and> (exactInverses S before (doc st) \<longrightarrow>
            doc (fst (snd (executeOperations S (before @ bad # after) st))) = doc st)"
proof -
  obtain out' where b: "executeOperation S bad d = (Inl e, out')"
    using assms(2) by (cases "executeOperation S bad d") simp
  note run = executeOperations_failure [OF assms(1) b, of after]
  have order: "us = rev (inversesInOrder S before (doc st))"
    using tryLoop_reverse_order [OF assms(1)] by simp
  have exact: "exactInverses S before (doc st) \<longrightarrow>
            doc (fst (snd (executeOperations S (before @ bad # after) st))) = doc st"
    using rollback_exact [OF assms(1)] run by simp
  show ?thesis
    using run order exact rollback_head_first [of S u rest d'] by simp
qed

theorem partial_failure_rolls_back_witness:
  "tryLoop (refSurface sampleCalc) scenarioBefore sampleSheet [] =
     (None,
      sampleSheet\<lparr> grid := [[formulaCell ''=1+1'' (JNum 2), constantCell (JNum 1)],
                              [constantCell (JStr ''x''), constantCell (JNum 20)],
                              [blankCell, blankCell]] \<rparr>,
      [UndoSetCellValue ''B1'' (JArr [JArr [JNum 10]])], [])
   \<and> fst (executeOperation (refSurface sampleCalc) badEdit
        (sampleSheet\<lparr> grid := [[formulaCell ''=1+1'' (JNum 2), constantCell (JNum 1)],
                                [constantCell (JStr ''x''), constantCell (JNum 20)],
                                [blankCell, blankCell]] \<rparr>)) = Inl (HostError ''InvalidArgument'')
   \<and> exactInverses (refSurface sampleCalc) scenarioBefore sampleSheet
   \<and> executeOperations (refSurface sampleCalc) (scenarioBefore @ badEdit # scenarioAfter)
        (newService sampleSheet) =
       (Inl (HostError ''InvalidArgument''), newService sampleSheet,
        [ConsoleError ''Failed to execute operations:'' (HostError ''InvalidArgument'')])"
proof -
  let ?S = "refSurface sampleCalc"
  let ?d = "sampleSheet\<lparr> grid := [[formulaCell ''=1+1'' (JNum 2), constantCell (JNum 1)],
                              [constantCell (JStr ''x''), constantCell (JNum 20)],
                              [blankCell, blankCell]] \<rparr>"
  let ?run = "executeOperations ?S (scenarioBefore @ badEdit # scenarioAfter) (newService sampleSheet)"
  have h1: "tryLoop ?S scenarioBefore (doc (newService sampleSheet)) [] =
     (None, ?d, [UndoSetCellValue ''B1'' (JArr [JArr [JNum 10]])], [])"
    by code_simp
  have h2: "fst (executeOperation ?S badEdit ?d) = Inl (HostError ''InvalidArgument'')"
    by code_simp
  have h3: "exactInverses ?S scenarioBefore (doc (newService sampleSheet))"
    by code_simp
  have out: "snd (snd ?run) = [ConsoleError ''Failed to execute operations:'' (HostError ''InvalidArgument'')]"
    by code_simp
  note main = partial_failure_rolls_back [OF h1 h2,
      of scenarioAfter "UndoSetCellValue ''B1'' (JArr [JArr [JNum 10]])" "[]" ?d]
  have e: "fst ?run = Inl (HostError ''InvalidArgument'')" using main by blast
  have "doc (fst (snd ?run)) = doc (newService sampleSheet)" using main h3 by blast
  moreover have "undoStack (fst (snd ?run)) = undoStack (newService sampleSheet)" using main by blast
  moreover have "redoStack (fst (snd ?run)) = redoStack (newService sampleSheet)" using main by blast
  ultimately have "fst (snd ?run) = newService sampleSheet"
    by (cases "fst (snd ?run)") (simp add: newService_def)
  then have "?run = (Inl (HostError ''InvalidArgument''), newService sampleSheet,
        [ConsoleError ''Failed to execute operations:'' (HostError ''InvalidArgument'')])"
    using e out by (metis prod.collapse)
  then show ?thesis
    using h1 h2 h3 by (simp add: newService_def)
qed

text \<open>
  The claim as first stated (the document of the ranges touched by steps \<open>1..k-1\<close>
  equals the pre-batch document) fails: an edit of a cell that holds a formula is
  rolled back by writing the cell's former value, so the formula is gone; and an
  inverse that throws is skipped, so what its step did stays.
\<close>

theorem partial_failure_counterexample:
  "fst (executeOperations (refSurface sampleCalc) (formulaEdit @ [badEdit]) (newService sampleSheet)) =
     Inl (HostError ''InvalidArgument'')
   \<and> rangeLoadFormulas (refSurface sampleCalc) ''A1'' sampleSheet = Inr (JArr [JArr [JStr ''=1+1'']])
   \<and> rangeLoadFormulas (refSurface sampleCalc) ''A1''
        (doc (fst (snd (executeOperations (refSurface sampleCalc) (formulaEdit @ [badEdit])
           (newService sampleSheet))))) = Inr (JArr [JArr [JNum 2]])
   \<and> fst (executeOperations (refSurface sampleCalc) [unnamedSheet, badEdit] (newService sampleSheet)) =
       Inl (HostError ''InvalidArgument'')
   \<and> sheetNames sampleSheet = [''Sheet1'']
   \<and> sheetNames (doc (fst (snd (executeOperations (refSurface sampleCalc) [unnamedSheet, badEdit]
        (newService sampleSheet))))) = [''Sheet1'', ''Sheet2'']"
  by code_simp

text \<open>
  C3, as amended. When an inverse throws during the rollback, its error is written to
  the console (\<open>Failed to undo operation:\<close>) and the rollback goes on with the
  remaining inverses. The error that \<open>executeOperations\<close> re-raises is the original one
  and nothing else: the secondary errors are on the console, not attached to it.
\<close>

theorem rollback_errors_are_logged:
  assumes "tryLoop S before (doc st) [] = (None, d, us, out)"
    and "fst (executeOperation S bad d) = Inl e"
  shows "fst (executeOperations S (before @ bad # after) st) = Inl e
       \<and> snd (snd (executeOperations S (before @ bad # after) st)) =
           out @ snd (executeOperation S bad d)
           @ [ConsoleError ''Failed to execute operations:'' e]
           @ map (ConsoleError ''Failed to undo operation:'') (secondaryErrors S us d)
       \<and> doc (fst (snd (executeOperations S (before @ bad # after) st))) = fst (rollback S us d)
       \<and> (runInverse S u d' = Inl undoError \<longrightarrow>
            secondaryErrors S (u # rest) d' = undoError # secondaryErrors S rest d'
            \<and> fst (rollback S (u # rest) d') = fst (rollback S rest d'))"
proof -
  obtain out' where b: "executeOperation S bad d = (Inl e, out')"
    using assms(2) by (cases "executeOperation S bad d") simp
  note run = executeOperations_failure [OF assms(1) b, of after]
  show ?thesis
    using run b by (simp add: rollback_console split: prod.splits)
qed

theorem rollback_errors_are_logged_witness:
  "tryLoop (refSurface sampleCalc) sheetThenEdit sampleSheet [] =
     (None,
      sampleSheet\<lparr> grid := [[formulaCell ''=1+1'' (JNum 2), constantCell (JNum 1)],
                              [constantCell (JStr ''x''), constantCell (JNum 20)],
                              [blankCell, blankCell]],
                    sheets := [(''Sheet1'', JNull), (''Sheet2'', JNull)] \<rparr>,
      [UndoCreateSheet JUndefined, UndoSetCellValue ''B1'' (JArr [JArr [JNum 10]])], [])
   \<and> runInverse (refSurface sampleCalc) (UndoCreateSheet JUndefined)
        (sampleSheet\<lparr> grid := [[formulaCell ''=1+1'' (JNum 2), constantCell (JNum 1)],
                                [constantCell (JStr ''x''), constantCell (JNum 20)],
                                [blankCell, blankCell]],
                      sheets := [(''Sheet1'', JNull), (''Sheet2'', JNull)] \<rparr>) =
       Inl (HostError ''ItemNotFound'')
   \<and> executeOperations (refSurface sampleCalc) (sheetThenEdit @ badEdit # scenarioAfter)
        (newService sampleSheet) =
       (Inl (HostError ''InvalidArgument''),
        newService (sampleSheet\<lparr> sheets := [(''Sheet1'', JNull), (''Sheet2'', JNull)] \<rparr>),
        [ConsoleError ''Failed to execute operations:'' (HostError ''InvalidArgument''),
         ConsoleError ''Failed to undo operation:'' (HostError ''ItemNotFound'')])"
proof -
  let ?S = "refSurface sampleCalc"
  let ?d = "sampleSheet\<lparr> grid := [[formulaCell ''=1+1'' (JNum 2), constantCell (JNum 1)],
                              [constantCell (JStr ''x''), constantCell (JNum 20)],
                              [blankCell, blankCell]],
                    sheets := [(''Sheet1'', JNull), (''Sheet2'', JNull)] \<rparr>"
  let ?us = "[UndoCreateSheet JUndefined, UndoSetCellValue ''B1'' (JArr [JArr [JNum 10]])]"
  let ?run = "executeOperations ?S (sheetThenEdit @ badEdit # scenarioAfter) (newService sampleSheet)"
  have h1: "tryLoop ?S sheetThenEdit (doc (newService sampleSheet)) [] = (None, ?d, ?us, [])"
    by code_simp
  have h2: "fst (executeOperation ?S badEdit ?d) = Inl (HostError ''InvalidArgument'')"
    by code_simp
  have h3: "runInverse ?S (UndoCreateSheet JUndefined) ?d = Inl (HostError ''ItemNotFound'')"
    by code_simp
  have quiet: "snd (executeOperation ?S badEdit ?d) = []"
    by code_simp
  have rest: "secondaryErrors ?S [UndoSetCellValue ''B1'' (JArr [JArr [JNum 10]])] ?d = []"
    by code_simp
  have st: "fst (snd ?run) = newService (sampleSheet\<lparr> sheets := [(''Sheet1'', JNull), (''Sheet2'', JNull)] \<rparr>)"
    by code_simp
  note main = rollback_errors_are_logged [OF h1 h2, of scenarioAfter "UndoCreateSheet JUndefined" ?d
      "HostError ''ItemNotFound''" "[UndoSetCellValue ''B1'' (JArr [JArr [JNum 10]])]"]
  have e: "fst ?run = Inl (HostError ''InvalidArgument'')" using main by blast
  have c: "snd (snd ?run) =
           [] @ snd (executeOperation ?S badEdit ?d)
           @ [ConsoleError ''Failed to execute operations:'' (HostError ''InvalidArgument'')]
           @ map (ConsoleError ''Failed to undo operation:'') (secondaryErrors ?S ?us ?d)"
    using main by blast
  have s2: "secondaryErrors ?S ?us ?d =
      HostError ''ItemNotFound'' # secondaryErrors ?S [UndoSetCellValue ''B1'' (JArr [JArr [JNum 10]])] ?d"
    using main h3 by blast
  have "snd (snd ?run) = [ConsoleError ''Failed to execute operations:'' (HostError ''InvalidArgument''),
         ConsoleError ''Failed to undo operation:'' (HostError ''ItemNotFound'')]"
    unfolding c s2 quiet rest by simp
  then have "?run = (Inl (HostError ''InvalidArgument''),
        newService (sampleSheet\<lparr> sheets := [(''Sheet1'', JNull), (''Sheet2'', JNull)] \<rparr>),
        [ConsoleError ''Failed to execute operations:'' (HostError ''InvalidArgument''),
         ConsoleError ''Failed to undo operation:'' (HostError ''ItemNotFound'')])"
    using e st by (metis prod.collapse)
  then show ?thesis
    using h1 h3 by (simp add: newService_def)
qed

text \<open>
  The claim as first stated (the caller's error carries every secondary rollback error)
  fails: the inverse of a sheet created without a name throws during the rollback, its
  error goes to the console, and the caller receives the original error alone.
\<close>

theorem rollback_errors_counterexample:
  "fst (executeOperations (refSurface sampleCalc) [unnamedSheet, badEdit] (newService sampleSheet)) =
     Inl (HostError ''InvalidArgument'')
   \<and> fst (tryLoop (refSurface sampleCalc) [unnamedSheet] sampleSheet []) = None
   \<and> secondaryErrors (refSurface sampleCalc)
        (fst (snd (snd (tryLoop (refSurface sampleCalc) [unnamedSheet] sampleSheet []))))
        (fst (snd (tryLoop (refSurface sampleCalc) [unnamedSheet] sampleSheet []))) =
       [HostError ''ItemNotFound'']
   \<and> snd (snd (executeOperations (refSurface sampleCalc) [unnamedSheet, badEdit] (newService sampleSheet))) =
       [ConsoleError ''Failed to execute operations:'' (HostError ''InvalidArgument''),
        ConsoleError ''Failed to undo operation:'' (HostError ''ItemNotFound'')]
   \<and> HostError ''ItemNotFound'' \<noteq> HostError ''InvalidArgument''"
  by code_simp

section \<open>Handlers and their inverses\<close>

lemma andThen_Inr: "andThen m f = Inr y \<longleftrightarrow> (\<exists>x. m = Inr x \<and> f x = Inr y)"
  by (cases m) (simp_all add: andThen_def)

text \<open>
  C6. The claim is that \<open>value\<close> is the number of rows (columns) inserted. The
  dispatcher passes \<open>operation.value || 1\<close> as \<open>count\<close>, and \<open>insertRows\<close> and
  \<open>insertColumns\<close> never read it: whatever the value, the request is one
  \<open>range.insert\<close> of the target's own shape. On the sample sheet, \<open>insert_row\<close> at
  \<open>2:2\<close> with value 2 inserts one row.
\<close>

theorem insert_count_is_ignored:
  "insertRows S tgt count d = insertRows S tgt (JNum 1) d
   \<and> insertColumns S tgt count d = insertColumns S tgt (JNum 1) d
   \<and> executeOperation S (descriptor ''insert_row'' tgt v opts) d =
       executeOperation S (descriptor ''insert_row'' tgt JUndefined opts) d
   \<and> executeOperation S (descriptor ''insert_column'' tgt v opts) d =
       executeOperation S (descriptor ''insert_column'' tgt JUndefined opts) d
   \<and> fst (executeOperation (refSurface sampleCalc)
             (descriptor ''insert_row'' ''2:2'' (JNum 2) JUndefined) sampleSheet) =
       Inr (sampleSheet\<lparr> grid := [[formulaCell ''=1+1'' (JNum 2), constantCell (JNum 10)],
                                    [blankCell, blankCell],
                                    [constantCell (JStr ''x''), constantCell (JNum 20)]] \<rparr>,
            Some (UndoInsertRows ''2:2''))"
proof -
  have rows: "insertRows S tgt count d = insertRows S tgt (JNum 1) d"
    by (simp add: insertRows_def)
  have cols: "insertColumns S tgt count d = insertColumns S tgt (JNum 1) d"
    by (simp add: insertColumns_def)
  have r: "executeOperation S (descriptor ''insert_row'' tgt v opts) d =
       executeOperation S (descriptor ''insert_row'' tgt JUndefined opts) d"
    by (simp add: executeOperation_def descriptor_def insertRows_def)
  have c: "executeOperation S (descriptor ''insert_column'' tgt v opts) d =
       executeOperation S (descriptor ''insert_column'' tgt JUndefined opts) d"
    by (simp add: executeOperation_def descriptor_def insertColumns_def)
  have run: "fst (executeOperation (refSurface sampleCalc)
             (descriptor ''insert_row'' ''2:2'' (JNum 2) JUndefined) sampleSheet) =
       Inr (sampleSheet\<lparr> grid := [[formulaCell ''=1+1'' (JNum 2), constantCell (JNum 10)],
                                    [blankCell, blankCell],
                                    [constantCell (JStr ''x''), constantCell (JNum 20)]] \<rparr>,
            Some (UndoInsertRows ''2:2''))"
    by code_simp
  show ?thesis using rows cols r c run by blast
qed

text \<open>
  The reference sheet under delete and insert. A delete shifts the cells beyond the
  target into it and leaves blank cells at the far edge, so the insert of the inverse
  finds room, and the target resolves to the same rectangle afterwards. Writing the
  captured values and then the captured formulas leaves the captured formulas in the
  cells of the target.
\<close>

lemma rowCount_rebuild: "rowCount (rebuild g f) = rowCount g"
  by (simp add: rebuild_def rowCount_def)

lemma columnCount_rebuild: "columnCount (rebuild g f) = columnCount g"
proof (cases g)
  case Nil
  then show ?thesis by (simp add: rebuild_def rowCount_def columnCount_def)
next
  case (Cons r rs)
  have "[0..<Suc (length rs)] = 0 # [Suc 0..<Suc (length rs)]"
    by (rule upt_conv_Cons) simp
  then have "rebuild g f = map (\<lambda>j. f 0 j) [0..<columnCount g]
      # map (\<lambda>i. map (\<lambda>j. f i j) [0..<columnCount g]) [Suc 0..<Suc (length rs)]"
    using Cons by (simp add: rebuild_def rowCount_def del: upt_Suc)
  then show ?thesis
    by (simp add: columnCount_def)
qed

lemma nth_rebuild:
  "i < rowCount g \<Longrightarrow> j < columnCount g \<Longrightarrow> rebuild g f ! i ! j = f i j"
  by (simp add: rebuild_def)

lemma resolve_grid_cong:
  "rowCount (grid d') = rowCount (grid d) \<Longrightarrow> columnCount (grid d') = columnCount (grid d) \<Longrightarrow>
   resolve d' address = resolve d address"
  by (simp add: resolve_def rowCount_def columnCount_def)

lemma resolve_bounds:
  assumes "resolve d address = Some r"
  shows "top r + height r \<le> rowCount (grid d) \<and> left r + width r \<le> columnCount (grid d)"
proof -
  define head where "head = takeWhile (\<lambda>c. c \<noteq> CHR '':'') address"
  define rest where "rest = dropWhile (\<lambda>c. c \<noteq> CHR '':'') address"
  define p where "p = (parseRef head, if rest = [] then parseRef head else parseRef (tl rest))"
  have r: "(case p of
          (Some (c1, r1), Some (c2, r2)) \<Rightarrow>
            if (c1 = 0) = (c2 = 0) \<and> (r1 = 0) = (r2 = 0) \<and> (rest \<noteq> [] \<or> (c1 > 0 \<and> r1 > 0))
            then (let (t, h) = span (rowCount (grid d)) r1 r2; (l, w) = span (columnCount (grid d)) c1 c2
                  in if t + h \<le> rowCount (grid d) \<and> l + w \<le> columnCount (grid d)
                     then Some \<lparr> top = t, left = l, height = h, width = w \<rparr> else None)
            else None
        | _ \<Rightarrow> None) = Some r"
    using assms
    unfolding resolve_def Let_def p_def head_def rest_def rowCount_def columnCount_def
    by simp
  obtain a b where ab: "p = (a, b)" by (cases p)
  show ?thesis
  proof (cases a)
    case None
    with r ab show ?thesis by simp
  next
    case (Some x)
    obtain c1 r1 where x: "x = (c1, r1)" by (cases x)
    show ?thesis
    proof (cases b)
      case None
      with r ab Some x show ?thesis by simp
    next
      case (Some y)
      obtain c2 r2 where y: "y = (c2, r2)" by (cases y)
      obtain t h where th: "span (rowCount (grid d)) r1 r2 = (t, h)"
        by (cases "span (rowCount (grid d)) r1 r2")
      obtain l w where lw: "span (columnCount (grid d)) c1 c2 = (l, w)"
        by (cases "span (columnCount (grid d)) c1 c2")
      from r ab \<open>a = Some x\<close> x Some y th lw show ?thesis
        by (auto split: if_splits)
    qed
  qed
qed

lemma matrixFor_readRect:
  assumes "\<forall>i j. inside r i j \<longrightarrow> scalar (field (g ! i ! j))"
  shows "matrixFor r (readRect field r g) =
           Some (map (\<lambda>i. map (\<lambda>j. field (g ! i ! j)) [left r..<left r + width r])
                   [top r..<top r + height r])"
proof -
  have "list_all (\<lambda>row. case row of JArr xs \<Rightarrow> length xs = width r \<and> list_all scalar xs | _ \<Rightarrow> False)
          (map (\<lambda>i. JArr (map (\<lambda>j. field (g ! i ! j)) [left r..<left r + width r]))
             [top r..<top r + height r])"
    using assms by (auto simp: list_all_iff inside_def)
  then show ?thesis
    by (simp add: matrixFor_def readRect_def rowOf_def comp_def)
qed

lemma cellFormula_putInput: "x \<noteq> JNull \<Longrightarrow> cellFormula (putInput calc x c) = x"
  by (cases x) (simp_all add: putInput_def)

lemma refWrite_grid:
  assumes "resolve d address = Some r" and "matrixFor r v = Some m"
  shows "refWrite put address v d = Inr (d\<lparr> grid := writeRect put r m (grid d) \<rparr>)"
  using assms by (simp add: refWrite_def onRange_def)

lemma writeRect_inside:
  assumes "inside r i j" and "i < rowCount g" and "j < columnCount g"
  shows "writeRect put r m g ! i ! j = put (m ! (i - top r) ! (j - left r)) (g ! i ! j)"
  using assms by (simp add: writeRect_def nth_rebuild)

lemma readRect_cong:
  assumes "\<And>i j. inside r i j \<Longrightarrow> field (g' ! i ! j) = field (g ! i ! j)"
  shows "readRect field r g' = readRect field r g"
  using assms by (simp add: readRect_def inside_def)

lemma resolve_after_write:
  "resolve (d\<lparr> grid := writeRect put r m (grid d) \<rparr>) address = resolve d address"
  by (rule resolve_grid_cong) (simp_all add: writeRect_def rowCount_rebuild columnCount_rebuild)

lemma restore_formulas:
  assumes res: "resolve x tgt = Some r"
    and plain: "\<forall>i j. inside r i j \<longrightarrow>
        scalar (cellValue (g ! i ! j)) \<and> scalar (cellFormula (g ! i ! j))
        \<and> cellFormula (g ! i ! j) \<noteq> JNull"
  shows "\<exists>y. andThen (refWrite (putInput calc) tgt (readRect cellValue r g) x)
                (refWrite (putInput calc) tgt (readRect cellFormula r g)) = Inr y
             \<and> refLoad cellFormula tgt y = Inr (readRect cellFormula r g)"
proof -
  let ?mv = "map (\<lambda>i. map (\<lambda>j. cellValue (g ! i ! j)) [left r..<left r + width r])
               [top r..<top r + height r]"
  let ?mf = "map (\<lambda>i. map (\<lambda>j. cellFormula (g ! i ! j)) [left r..<left r + width r])
               [top r..<top r + height r]"
  let ?x1 = "x\<lparr> grid := writeRect (putInput calc) r ?mv (grid x) \<rparr>"
  let ?y = "?x1\<lparr> grid := writeRect (putInput calc) r ?mf (grid ?x1) \<rparr>"
  have mv: "matrixFor r (readRect cellValue r g) = Some ?mv"
    using plain by (intro matrixFor_readRect) simp
  have mf: "matrixFor r (readRect cellFormula r g) = Some ?mf"
    using plain by (intro matrixFor_readRect) simp
  have w1: "refWrite (putInput calc) tgt (readRect cellValue r g) x = Inr ?x1"
    by (rule refWrite_grid [OF res mv])
  have res1: "resolve ?x1 tgt = Some r"
    using res by (simp add: resolve_after_write)
  have w2: "refWrite (putInput calc) tgt (readRect cellFormula r g) ?x1 = Inr ?y"
    by (rule refWrite_grid [OF res1 mf])
  have resy: "resolve ?y tgt = Some r"
    using res1 by (simp only: resolve_after_write)
  have b: "top r + height r \<le> rowCount (grid ?x1) \<and> left r + width r \<le> columnCount (grid ?x1)"
    by (rule resolve_bounds [OF res1])
  have cell: "cellFormula (grid ?y ! i ! j) = cellFormula (g ! i ! j)" if "inside r i j" for i j
  proof -
    have i: "i < rowCount (grid ?x1)" and j: "j < columnCount (grid ?x1)"
      using that b by (simp_all add: inside_def)
    have ia: "top r + (i - top r) = i" "i - top r < height r"
      and ja: "left r + (j - left r) = j" "j - left r < width r"
      using that by (auto simp: inside_def)
    have "?mf ! (i - top r) ! (j - left r) = cellFormula (g ! i ! j)"
      using ia ja by simp
    moreover have "grid ?y ! i ! j =
        putInput calc (?mf ! (i - top r) ! (j - left r)) (grid ?x1 ! i ! j)"
      using writeRect_inside [OF that i j] by simp
    ultimately show ?thesis
      using plain that by (simp add: cellFormula_putInput)
  qed
  have "refLoad cellFormula tgt ?y = Inr (readRect cellFormula r (grid ?y))"
    using resy by (simp add: refLoad_def onRange_def)
  also have "readRect cellFormula r (grid ?y) = readRect cellFormula r g"
    by (rule readRect_cong) (rule cell)
  finally have "refLoad cellFormula tgt ?y = Inr (readRect cellFormula r g)" .
  then show ?thesis using w1 w2 by (auto simp: andThen_Inr)
qed

lemma insert_after_delete_rows:
  assumes res: "resolve d tgt = Some r" and del: "refDelete tgt ShiftUp d = Inr d'"
  shows "\<exists>d2. refInsert tgt ShiftDown d' = Inr d2 \<and> resolve d2 tgt = Some r"
proof -
  let ?n = "rowCount (grid d)"
  let ?m = "columnCount (grid d)"
  have d': "d' = d\<lparr> grid := rebuild (grid d)
       (\<lambda>i j. if left r \<le> j \<and> j < left r + width r \<and> top r \<le> i
              then (if i + height r < ?n then grid d ! (i + height r) ! j else blankCell)
              else grid d ! i ! j) \<rparr>"
    using res del by (simp add: refDelete_def onRange_def Let_def)
  have dims: "rowCount (grid d') = ?n" "columnCount (grid d') = ?m"
    by (simp_all add: d' rowCount_rebuild columnCount_rebuild)
  have res': "resolve d' tgt = Some r"
    using res resolve_grid_cong [OF dims] by simp
  have b: "top r + height r \<le> ?n \<and> left r + width r \<le> ?m"
    by (rule resolve_bounds [OF res])
  have blank: "grid d' ! i ! j = blankCell"
    if "i \<in> set [?n - height r..<?n]" "j \<in> set [left r..<left r + width r]" for i j
  proof -
    have "i < ?n" "j < ?m" "top r \<le> i" "\<not> i + height r < ?n" "left r \<le> j" "j < left r + width r"
      using that b by auto
    then show ?thesis by (simp add: d' nth_rebuild)
  qed
  let ?d2 = "d'\<lparr> grid := rebuild (grid d')
       (\<lambda>i j. if left r \<le> j \<and> j < left r + width r \<and> top r \<le> i
              then (if i < top r + height r then blankCell else grid d' ! (i - height r) ! j)
              else grid d' ! i ! j) \<rparr>"
  have "list_all (\<lambda>i. list_all (\<lambda>j. grid d' ! i ! j = blankCell) [left r..<left r + width r])
          [rowCount (grid d') - height r..<rowCount (grid d')]"
    using blank by (simp add: list_all_iff dims)
  then have ins: "refInsert tgt ShiftDown d' = Inr ?d2"
    using res' by (simp add: refInsert_def onRange_def Let_def)
  have "resolve ?d2 tgt = resolve d' tgt"
    by (rule resolve_grid_cong) (simp_all add: rowCount_rebuild columnCount_rebuild)
  then have "resolve ?d2 tgt = Some r" using res' by simp
  with ins show ?thesis by (intro exI conjI)
qed

lemma insert_after_delete_columns:
  assumes res: "resolve d tgt = Some r" and del: "refDelete tgt ShiftLeft d = Inr d'"
  shows "\<exists>d2. refInsert tgt ShiftRight d' = Inr d2 \<and> resolve d2 tgt = Some r"
proof -
  let ?n = "rowCount (grid d)"
  let ?m = "columnCount (grid d)"
  have d': "d' = d\<lparr> grid := rebuild (grid d)
       (\<lambda>i j. if top r \<le> i \<and> i < top r + height r \<and> left r \<le> j
              then (if j + width r < ?m then grid d ! i ! (j + width r) else blankCell)
              else grid d ! i ! j) \<rparr>"
    using res del by (simp add: refDelete_def onRange_def Let_def)
  have dims: "rowCount (grid d') = ?n" "columnCount (grid d') = ?m"
    by (simp_all add: d' rowCount_rebuild columnCount_rebuild)
  have res': "resolve d' tgt = Some r"
    using res resolve_grid_cong [OF dims] by simp
  have b: "top r + height r \<le> ?n \<and> left r + width r \<le> ?m"
    by (rule resolve_bounds [OF res])
  have blank: "grid d' ! i ! j = blankCell"
    if "i \<in> set [top r..<top r + height r]" "j \<in> set [?m - width r..<?m]" for i j
  proof -
    have "i < ?n" "j < ?m" "left r \<le> j" "\<not> j + width r < ?m" "top r \<le> i" "i < top r + height r"
      using that b by auto
    then show ?thesis by (simp add: d' nth_rebuild)
  qed
  let ?d2 = "d'\<lparr> grid := rebuild (grid d')
       (\<lambda>i j. if top r \<le> i \<and> i < top r + height r \<and> left r \<le> j
              then (if j < left r + width r then blankCell else grid d' ! i ! (j - width r))
              else grid d' ! i ! j) \<rparr>"
  have "list_all (\<lambda>i. list_all (\<lambda>j. grid d' ! i ! j = blankCell)
                 [columnCount (grid d') - width r..<columnCount (grid d')])
          [top r..<top r + height r]"
    using blank by (simp add: list_all_iff dims)
  then have ins: "refInsert tgt ShiftRight d' = Inr ?d2"
    using res' by (simp add: refInsert_def onRange_def Let_def)
  have "resolve ?d2 tgt = resolve d' tgt"
    by (rule resolve_grid_cong) (simp_all add: rowCount_rebuild columnCount_rebuild)
  then have "resolve ?d2 tgt = Some r" using res' by simp
  with ins show ?thesis by (intro exI conjI)
qed

lemma deleteRows_on_reference:
  assumes del: "deleteRows (refSurface calc) tgt d = Inr (d', undoOp)"
    and res: "resolve d tgt = Some r"
  shows "undoOp = UndoDeleteRows tgt (readRect cellValue r (grid d)) (readRect cellFormula r (grid d))
         \<and> refDelete tgt ShiftUp d = Inr d'"
proof -
  have v: "rangeLoadValues (refSurface calc) tgt d = Inr (readRect cellValue r (grid d))"
    using res by (simp add: refSurface_def refLoad_def onRange_def)
  have f: "rangeLoadFormulas (refSurface calc) tgt d = Inr (readRect cellFormula r (grid d))"
    using res by (simp add: refSurface_def refLoad_def onRange_def)
  have x: "rangeDelete (refSurface calc) tgt ShiftUp d = refDelete tgt ShiftUp d"
    by (simp add: refSurface_def)
  from del show ?thesis
    unfolding deleteRows_def v f x by (auto simp: andThen_Inr)
qed

lemma deleteColumns_on_reference:
  assumes del: "deleteColumns (refSurface calc) tgt d = Inr (d', undoOp)"
    and res: "resolve d tgt = Some r"
  shows "undoOp = UndoDeleteColumns tgt (readRect cellValue r (grid d)) (readRect cellFormula r (grid d))
         \<and> refDelete tgt ShiftLeft d = Inr d'"
proof -
  have v: "rangeLoadValues (refSurface calc) tgt d = Inr (readRect cellValue r (grid d))"
    using res by (simp add: refSurface_def refLoad_def onRange_def)
  have f: "rangeLoadFormulas (refSurface calc) tgt d = Inr (readRect cellFormula r (grid d))"
    using res by (simp add: refSurface_def refLoad_def onRange_def)
  have x: "rangeDelete (refSurface calc) tgt ShiftLeft d = refDelete tgt ShiftLeft d"
    by (simp add: refSurface_def)
  from del show ?thesis
    unfolding deleteColumns_def v f x by (auto simp: andThen_Inr)
qed

lemma replay_restore_on_reference:
  assumes ins: "refInsert tgt dir d' = Inr d2"
    and w: "andThen (refWrite (putInput calc) tgt values d2)
                (refWrite (putInput calc) tgt formulas) = Inr y"
  shows "andThen (rangeInsert (refSurface calc) tgt dir d') (\<lambda>d1.
         andThen (rangeSetValues (refSurface calc) tgt values d1) (\<lambda>d2.
         rangeSetFormulas (refSurface calc) tgt formulas d2)) = Inr y"
proof -
  have a: "rangeInsert (refSurface calc) = refInsert"
    "rangeSetValues (refSurface calc) = refWrite (putInput calc)"
    "rangeSetFormulas (refSurface calc) = refWrite (putInput calc)"
    by (simp_all add: refSurface_def)
  show ?thesis unfolding a using ins w by (simp add: andThen_def)
qed

lemma deleted_rows_recovered:
  assumes del: "deleteRows (refSurface calc) tgt d = Inr (d', undoOp)"
    and res: "resolve d tgt = Some r"
    and plain: "\<forall>i j. inside r i j \<longrightarrow>
        scalar (cellValue (grid d ! i ! j)) \<and> scalar (cellFormula (grid d ! i ! j))
        \<and> cellFormula (grid d ! i ! j) \<noteq> JNull"
  shows "\<exists>d''. runInverse (refSurface calc) undoOp d' = Inr d''
              \<and> rangeLoadFormulas (refSurface calc) tgt d'' =
                  rangeLoadFormulas (refSurface calc) tgt d"
proof -
  from deleteRows_on_reference [OF del res] have
    u: "undoOp = UndoDeleteRows tgt (readRect cellValue r (grid d)) (readRect cellFormula r (grid d))"
    and gone: "refDelete tgt ShiftUp d = Inr d'" by simp_all
  from insert_after_delete_rows [OF res gone] obtain d2 where
    ins: "refInsert tgt ShiftDown d' = Inr d2" and res2: "resolve d2 tgt = Some r" by blast
  from restore_formulas [OF res2 plain, of calc] obtain y where
    w: "andThen (refWrite (putInput calc) tgt (readRect cellValue r (grid d)) d2)
                (refWrite (putInput calc) tgt (readRect cellFormula r (grid d))) = Inr y"
    and rd: "refLoad cellFormula tgt y = Inr (readRect cellFormula r (grid d))" by blast
  have run: "runInverse (refSurface calc) undoOp d' = Inr y"
    unfolding u runInverse.simps by (rule replay_restore_on_reference [OF ins w])
  have "rangeLoadFormulas (refSurface calc) tgt d = Inr (readRect cellFormula r (grid d))"
    using res by (simp add: refSurface_def refLoad_def onRange_def)
  moreover have "rangeLoadFormulas (refSurface calc) tgt y = refLoad cellFormula tgt y"
    by (simp add: refSurface_def)
  ultimately have same: "rangeLoadFormulas (refSurface calc) tgt y = rangeLoadFormulas (refSurface calc) tgt d"
    using rd by simp
  from run same show ?thesis by (intro exI conjI)
qed

lemma deleted_columns_recovered:
  assumes del: "deleteColumns (refSurface calc) tgt d = Inr (d', undoOp)"
    and res: "resolve d tgt = Some r"
    and plain: "\<forall>i j. inside r i j \<longrightarrow>
        scalar (cellValue (grid d ! i ! j)) \<and> scalar (cellFormula (grid d ! i ! j))
        \<and> cellFormula (grid d ! i ! j) \<noteq> JNull"
  shows "\<exists>d''. runInverse (refSurface calc) undoOp d' = Inr d''
              \<and> rangeLoadFormulas (refSurface calc) tgt d'' =
                  rangeLoadFormulas (refSurface calc) tgt d"
proof -
  from deleteColumns_on_reference [OF del res] have
    u: "undoOp = UndoDeleteColumns tgt (readRect cellValue r (grid d)) (readRect cellFormula r (grid d))"
    and gone: "refDelete tgt ShiftLeft d = Inr d'" by simp_all
  from insert_after_delete_columns [OF res gone] obtain d2 where
    ins: "refInsert tgt ShiftRight d' = Inr d2" and res2: "resolve d2 tgt = Some r" by blast
  from restore_formulas [OF res2 plain, of calc] obtain y where
    w: "andThen (refWrite (putInput calc) tgt (readRect cellValue r (grid d)) d2)
                (refWrite (putInput calc) tgt (readRect cellFormula r (grid d))) = Inr y"
    and rd: "refLoad cellFormula tgt y = Inr (readRect cellFormula r (grid d))" by blast
  have run: "runInverse (refSurface calc) undoOp d' = Inr y"
    unfolding u runInverse.simps by (rule replay_restore_on_reference [OF ins w])
  have "rangeLoadFormulas (refSurface calc) tgt d = Inr (readRect cellFormula r (grid d))"
    using res by (simp add: refSurface_def refLoad_def onRange_def)
  moreover have "rangeLoadFormulas (refSurface calc) tgt y = refLoad cellFormula tgt y"
    by (simp add: refSurface_def)
  ultimately have same: "rangeLoadFormulas (refSurface calc) tgt y = rangeLoadFormulas (refSurface calc) tgt d"
    using rd by simp
  from run same show ?thesis by (intro exI conjI)
qed

text \<open>
  C7. When \<open>deleteRows\<close> (\<open>deleteColumns\<close>) succeeds, it has loaded the target's values
  and formulas from the document as it was before the delete, has deleted the target
  with the shift up (left), and returns an inverse that holds exactly those values and
  formulas and that, replayed on any document, inserts at the target with the shift
  down (right), then writes the captured values, then the captured formulas, to the
  same address. A range proxy is the address it was made from. On the reference sheet,
  for every target whose cells hold scalar values and formulas, replaying the inverse
  on the document the delete left succeeds, and the formulas of the target read back
  as they were before the delete.
\<close>

theorem delete_inverse_reinserts_and_restores:
  "(deleteRows S tgt d = Inr (d', undoOp) \<longrightarrow>
      (\<exists>values formulas.
          rangeLoadValues S tgt d = Inr values \<and> rangeLoadFormulas S tgt d = Inr formulas
        \<and> rangeDelete S tgt ShiftUp d = Inr d'
        \<and> undoOp = UndoDeleteRows tgt values formulas
        \<and> (\<forall>d2. runInverse S undoOp d2 =
              andThen (rangeInsert S tgt ShiftDown d2) (\<lambda>d3.
              andThen (rangeSetValues S tgt values d3) (\<lambda>d4.
              rangeSetFormulas S tgt formulas d4)))))
   \<and> (deleteColumns S tgt d = Inr (d', undoOp) \<longrightarrow>
      (\<exists>values formulas.
          rangeLoadValues S tgt d = Inr values \<and> rangeLoadFormulas S tgt d = Inr formulas
        \<and> rangeDelete S tgt ShiftLeft d = Inr d'
        \<and> undoOp = UndoDeleteColumns tgt values formulas
        \<and> (\<forall>d2. runInverse S undoOp d2 =
              andThen (rangeInsert S tgt ShiftRight d2) (\<lambda>d3.
              andThen (rangeSetValues S tgt values d3) (\<lambda>d4.
              rangeSetFormulas S tgt formulas d4)))))
   \<and> (deleteRows (refSurface calc) tgt sheet = Inr (sheet', u)
        \<and> resolve sheet tgt = Some r
        \<and> (\<forall>i j. inside r i j \<longrightarrow>
              scalar (cellValue (grid sheet ! i ! j)) \<and> scalar (cellFormula (grid sheet ! i ! j))
              \<and> cellFormula (grid sheet ! i ! j) \<noteq> JNull) \<longrightarrow>
      (\<exists>sheet''. runInverse (refSurface calc) u sheet' = Inr sheet''
         \<and> rangeLoadFormulas (refSurface calc) tgt sheet'' =
             rangeLoadFormulas (refSurface calc) tgt sheet))
   \<and> (deleteColumns (refSurface calc) tgt sheet = Inr (sheet', u)
        \<and> resolve sheet tgt = Some r
        \<and> (\<forall>i j. inside r i j \<longrightarrow>
              scalar (cellValue (grid sheet ! i ! j)) \<and> scalar (cellFormula (grid sheet ! i ! j))
              \<and> cellFormula (grid sheet ! i ! j) \<noteq> JNull) \<longrightarrow>
      (\<exists>sheet''. runInverse (refSurface calc) u sheet' = Inr sheet''
         \<and> rangeLoadFormulas (refSurface calc) tgt sheet'' =
             rangeLoadFormulas (refSurface calc) tgt sheet))"
proof (intro conjI)
  show "deleteRows S tgt d = Inr (d', undoOp) \<longrightarrow>
      (\<exists>values formulas.
          rangeLoadValues S tgt d = Inr values \<and> rangeLoadFormulas S tgt d = Inr formulas
        \<and> rangeDelete S tgt ShiftUp d = Inr d'
        \<and> undoOp = UndoDeleteRows tgt values formulas
        \<and> (\<forall>d2. runInverse S undoOp d2 =
              andThen (rangeInsert S tgt ShiftDown d2) (\<lambda>d3.
              andThen (rangeSetValues S tgt values d3) (\<lambda>d4.
              rangeSetFormulas S tgt formulas d4))))"
    by (auto simp: deleteRows_def andThen_Inr)
  show "deleteColumns S tgt d = Inr (d', undoOp) \<longrightarrow>
      (\<exists>values formulas.
          rangeLoadValues S tgt d = Inr values \<and> rangeLoadFormulas S tgt d = Inr formulas
        \<and> rangeDelete S tgt ShiftLeft d = Inr d'
        \<and> undoOp = UndoDeleteColumns tgt values formulas
        \<and> (\<forall>d2. runInverse S undoOp d2 =
              andThen (rangeInsert S tgt ShiftRight d2) (\<lambda>d3.
              andThen (rangeSetValues S tgt values d3) (\<lambda>d4.
              rangeSetFormulas S tgt formulas d4))))"
    by (auto simp: deleteColumns_def andThen_Inr)
  show "deleteRows (refSurface calc) tgt sheet = Inr (sheet', u)
        \<and> resolve sheet tgt = Some r
        \<and> (\<forall>i j. inside r i j \<longrightarrow>
              scalar (cellValue (grid sheet ! i ! j)) \<and> scalar (cellFormula (grid sheet ! i ! j))
              \<and> cellFormula (grid sheet ! i ! j) \<noteq> JNull) \<longrightarrow>
      (\<exists>sheet''. runInverse (refSurface calc) u sheet' = Inr sheet''
         \<and> rangeLoadFormulas (refSurface calc) tgt sheet'' =
             rangeLoadFormulas (refSurface calc) tgt sheet)"
  proof
    assume a: "deleteRows (refSurface calc) tgt sheet = Inr (sheet', u)
        \<and> resolve sheet tgt = Some r
        \<and> (\<forall>i j. inside r i j \<longrightarrow>
              scalar (cellValue (grid sheet ! i ! j)) \<and> scalar (cellFormula (grid sheet ! i ! j))
              \<and> cellFormula (grid sheet ! i ! j) \<noteq> JNull)"
    show "\<exists>sheet''. runInverse (refSurface calc) u sheet' = Inr sheet''
         \<and> rangeLoadFormulas (refSurface calc) tgt sheet'' =
             rangeLoadFormulas (refSurface calc) tgt sheet"
      by (rule deleted_rows_recovered
            [OF conjunct1 [OF a] conjunct1 [OF conjunct2 [OF a]] conjunct2 [OF conjunct2 [OF a]]])
  qed
  show "deleteColumns (refSurface calc) tgt sheet = Inr (sheet', u)
        \<and> resolve sheet tgt = Some r
        \<and> (\<forall>i j. inside r i j \<longrightarrow>
              scalar (cellValue (grid sheet ! i ! j)) \<and> scalar (cellFormula (grid sheet ! i ! j))
              \<and> cellFormula (grid sheet ! i ! j) \<noteq> JNull) \<longrightarrow>
      (\<exists>sheet''. runInverse (refSurface calc) u sheet' = Inr sheet''
         \<and> rangeLoadFormulas (refSurface calc) tgt sheet'' =
             rangeLoadFormulas (refSurface calc) tgt sheet)"
  proof
    assume a: "deleteColumns (refSurface calc) tgt sheet = Inr (sheet', u)
        \<and> resolve sheet tgt = Some r
        \<and> (\<forall>i j. inside r i j \<longrightarrow>
              scalar (cellValue (grid sheet ! i ! j)) \<and> scalar (cellFormula (grid sheet ! i ! j))
              \<and> cellFormula (grid sheet ! i ! j) \<noteq> JNull)"
    show "\<exists>sheet''. runInverse (refSurface calc) u sheet' = Inr sheet''
         \<and> rangeLoadFormulas (refSurface calc) tgt sheet'' =
             rangeLoadFormulas (refSurface calc) tgt sheet"
      by (rule deleted_columns_recovered
            [OF conjunct1 [OF a] conjunct1 [OF conjunct2 [OF a]] conjunct2 [OF conjunct2 [OF a]]])
  qed
qed

theorem delete_inverse_witness:
  "deleteRows (refSurface sampleCalc) ''1:1'' sampleSheet =
     Inr (sampleSheet\<lparr> grid := [[constantCell (JStr ''x''), constantCell (JNum 20)],
                                  [blankCell, blankCell],
                                  [blankCell, blankCell]] \<rparr>,
          UndoDeleteRows ''1:1'' (JArr [JArr [JNum 2, JNum 10]]) (JArr [JArr [JStr ''=1+1'', JNum 10]]))
   \<and> runInverse (refSurface sampleCalc)
        (UndoDeleteRows ''1:1'' (JArr [JArr [JNum 2, JNum 10]]) (JArr [JArr [JStr ''=1+1'', JNum 10]]))
        (sampleSheet\<lparr> grid := [[constantCell (JStr ''x''), constantCell (JNum 20)],
                                [blankCell, blankCell],
                                [blankCell, blankCell]] \<rparr>) = Inr sampleSheet
   \<and> deleteColumns (refSurface sampleCalc) ''A:A'' sampleSheet =
     Inr (sampleSheet\<lparr> grid := [[constantCell (JNum 10), blankCell],
                                  [constantCell (JNum 20), blankCell],
                                  [blankCell, blankCell]] \<rparr>,
          UndoDeleteColumns ''A:A'' (JArr [JArr [JNum 2], JArr [JStr ''x''], JArr [JStr []]])
            (JArr [JArr [JStr ''=1+1''], JArr [JStr ''x''], JArr [JStr []]]))
   \<and> runInverse (refSurface sampleCalc)
        (UndoDeleteColumns ''A:A'' (JArr [JArr [JNum 2], JArr [JStr ''x''], JArr [JStr []]])
            (JArr [JArr [JStr ''=1+1''], JArr [JStr ''x''], JArr [JStr []]]))
        (sampleSheet\<lparr> grid := [[constantCell (JNum 10), blankCell],
                                  [constantCell (JNum 20), blankCell],
                                  [blankCell, blankCell]] \<rparr>) = Inr sampleSheet
   \<and> resolve sampleSheet ''1:1'' = Some \<lparr> top = 0, left = 0, height = 1, width = 2 \<rparr>
   \<and> (\<exists>sheet''. runInverse (refSurface sampleCalc)
          (UndoDeleteRows ''1:1'' (JArr [JArr [JNum 2, JNum 10]]) (JArr [JArr [JStr ''=1+1'', JNum 10]]))
          (sampleSheet\<lparr> grid := [[constantCell (JStr ''x''), constantCell (JNum 20)],
                                  [blankCell, blankCell],
                                  [blankCell, blankCell]] \<rparr>) = Inr sheet''
        \<and> rangeLoadFormulas (refSurface sampleCalc) ''1:1'' sheet'' =
            Inr (JArr [JArr [JStr ''=1+1'', JNum 10]]))"
proof -
  let ?S = "refSurface sampleCalc"
  let ?d1 = "sampleSheet\<lparr> grid := [[constantCell (JStr ''x''), constantCell (JNum 20)],
                                  [blankCell, blankCell],
                                  [blankCell, blankCell]] \<rparr>"
  let ?u1 = "UndoDeleteRows ''1:1'' (JArr [JArr [JNum 2, JNum 10]]) (JArr [JArr [JStr ''=1+1'', JNum 10]])"
  let ?d2 = "sampleSheet\<lparr> grid := [[constantCell (JNum 10), blankCell],
                                  [constantCell (JNum 20), blankCell],
                                  [blankCell, blankCell]] \<rparr>"
  let ?u2 = "UndoDeleteColumns ''A:A'' (JArr [JArr [JNum 2], JArr [JStr ''x''], JArr [JStr []]])
            (JArr [JArr [JStr ''=1+1''], JArr [JStr ''x''], JArr [JStr []]])"
  let ?r = "\<lparr> top = 0, left = 0, height = 1, width = 2 \<rparr> :: rect"
  have r: "deleteRows ?S ''1:1'' sampleSheet = Inr (?d1, ?u1)" by code_simp
  have c: "deleteColumns ?S ''A:A'' sampleSheet = Inr (?d2, ?u2)" by code_simp
  have ri: "andThen (rangeInsert ?S ''1:1'' ShiftDown ?d1) (\<lambda>d3.
              andThen (rangeSetValues ?S ''1:1'' (JArr [JArr [JNum 2, JNum 10]]) d3) (\<lambda>d4.
              rangeSetFormulas ?S ''1:1'' (JArr [JArr [JStr ''=1+1'', JNum 10]]) d4)) = Inr sampleSheet"
    by code_simp
  have ci: "andThen (rangeInsert ?S ''A:A'' ShiftRight ?d2) (\<lambda>d3.
              andThen (rangeSetValues ?S ''A:A'' (JArr [JArr [JNum 2], JArr [JStr ''x''], JArr [JStr []]]) d3) (\<lambda>d4.
              rangeSetFormulas ?S ''A:A'' (JArr [JArr [JStr ''=1+1''], JArr [JStr ''x''], JArr [JStr []]]) d4)) = Inr sampleSheet"
    by code_simp
  have res: "resolve sampleSheet ''1:1'' = Some ?r" by code_simp
  have a: "scalar (cellValue (grid sampleSheet ! 0 ! 0)) \<and> scalar (cellFormula (grid sampleSheet ! 0 ! 0))
        \<and> cellFormula (grid sampleSheet ! 0 ! 0) \<noteq> JNull" by code_simp
  have b: "scalar (cellValue (grid sampleSheet ! 0 ! 1)) \<and> scalar (cellFormula (grid sampleSheet ! 0 ! 1))
        \<and> cellFormula (grid sampleSheet ! 0 ! 1) \<noteq> JNull" by code_simp
  have at: "i = 0 \<and> (j = 0 \<or> j = 1)" if "inside ?r i j" for i j
    using that by (auto simp: inside_def)
  have plain: "\<forall>i j. inside ?r i j \<longrightarrow>
        scalar (cellValue (grid sampleSheet ! i ! j)) \<and> scalar (cellFormula (grid sampleSheet ! i ! j))
        \<and> cellFormula (grid sampleSheet ! i ! j) \<noteq> JNull"
    using at a b by blast
  have before: "rangeLoadFormulas ?S ''1:1'' sampleSheet = Inr (JArr [JArr [JStr ''=1+1'', JNum 10]])"
    by code_simp
  note main = delete_inverse_reinserts_and_restores
    [of ?S "''1:1''" sampleSheet ?d1 ?u1 sampleCalc sampleSheet ?d1 ?u1 ?r]
  have one: "runInverse ?S ?u1 ?d1 = Inr sampleSheet"
    using main r ri by auto
  have two: "runInverse ?S ?u2 ?d2 = Inr sampleSheet"
    using delete_inverse_reinserts_and_restores
      [of ?S "''A:A''" sampleSheet ?d2 ?u2 sampleCalc sampleSheet ?d2 ?u2 ?r] c ci by auto
  have "\<exists>sheet''. runInverse ?S ?u1 ?d1 = Inr sheet''
         \<and> rangeLoadFormulas ?S ''1:1'' sheet'' = rangeLoadFormulas ?S ''1:1'' sampleSheet"
    using main r res plain by blast
  then have three: "\<exists>sheet''. runInverse ?S ?u1 ?d1 = Inr sheet''
         \<and> rangeLoadFormulas ?S ''1:1'' sheet'' = Inr (JArr [JArr [JStr ''=1+1'', JNum 10]])"
    unfolding before .
  show ?thesis using r one c two res three by (intro conjI)
qed

lemma filter_changed_key:
  "filter (\<lambda>(k', c). k' \<noteq> k) (map (\<lambda>(k', c). if k' = k then (k', f c) else (k', c)) cs) =
   filter (\<lambda>(k', c). k' \<noteq> k) cs"
  by (induction cs) auto

lemma keys_changed_key:
  "map fst (map (\<lambda>(k', c). if k' = k then (k', f c) else (k', c)) cs) = map fst cs"
  by (induction cs) auto

lemma refChartUpdate_charts:
  assumes "refChartUpdate k f x = Inr y"
  shows "filter (\<lambda>(k', c). k' \<noteq> k) (charts y) = filter (\<lambda>(k', c). k' \<noteq> k) (charts x)"
    and "map fst (charts y) = map fst (charts x)"
proof -
  have y: "y = x\<lparr> charts := map (\<lambda>(k', c). if k' = k then (k', f c) else (k', c)) (charts x) \<rparr>"
    using assms by (simp add: refChartUpdate_def split: if_splits)
  show "filter (\<lambda>(k', c). k' \<noteq> k) (charts y) = filter (\<lambda>(k', c). k' \<noteq> k) (charts x)"
    unfolding y by (simp add: filter_changed_key)
  show "map fst (charts y) = map fst (charts x)"
    unfolding y by (simp add: keys_changed_key del: map_map)
qed

lemma createChart_steps:
  assumes "createChart S tgt opts d = Inr (d', undoOp)"
  shows "\<exists>oType oTitle position d1 chartId d2.
      chartsAdd S (js_or oType (JStr ''ColumnClustered'')) tgt d = Inr (d1, chartId)
    \<and> whenTruthy oTitle (chartSetTitle S chartId oTitle) d1 = Inr d2
    \<and> (case position of None \<Rightarrow> Inr d2
         | Some (pLeft, pTop, pWidth, pHeight) \<Rightarrow>
             chartSetPosition S chartId pLeft pTop pWidth pHeight d2) = Inr d'
    \<and> undoOp = UndoCreateChart chartId"
  using assms
  by (simp add: createChart_def Let_def andThen_Inr split: prod.splits) blast


lemma refChartsAdd_appends:
  assumes "refChartsAdd ty tgt d = Inr (d1, chartId)"
  shows "chartId = ''chart'' @ decimal (nextId d) \<and> (\<exists>c0. charts d1 = charts d @ [(chartId, c0)])"
  using assms
  by (auto simp: refChartsAdd_def onRange_def Let_def split: option.splits if_splits)

lemma created_chart_removed_alone:
  assumes c: "createChart (refSurface calc) tgt opts d = Inr (d', undoOp)"
    and fresh: "''chart'' @ decimal (nextId d) \<notin> set (map fst (charts d))"
  shows "\<exists>d''. runInverse (refSurface calc) undoOp d' = Inr d'' \<and> charts d'' = charts d"
proof -
  let ?S = "refSurface calc"
  from createChart_steps [OF c] obtain oType oTitle position d1 chartId d2 where
    add: "chartsAdd ?S (js_or oType (JStr ''ColumnClustered'')) tgt d = Inr (d1, chartId)"
    and title: "whenTruthy oTitle (chartSetTitle ?S chartId oTitle) d1 = Inr d2"
    and pos: "(case position of None \<Rightarrow> Inr d2
               | Some (pLeft, pTop, pWidth, pHeight) \<Rightarrow>
                   chartSetPosition ?S chartId pLeft pTop pWidth pHeight d2) = Inr d'"
    and u: "undoOp = UndoCreateChart chartId"
    by blast
  let ?others = "\<lambda>x. filter (\<lambda>(k', c). k' \<noteq> chartId) (charts x)"
  from add have "refChartsAdd (js_or oType (JStr ''ColumnClustered'')) tgt d = Inr (d1, chartId)"
    by (simp add: refSurface_def)
  from refChartsAdd_appends [OF this] obtain c0 where
    id: "chartId = ''chart'' @ decimal (nextId d)" and ch1: "charts d1 = charts d @ [(chartId, c0)]"
    by blast
  have "chartId \<notin> fst ` set (charts d)" using fresh id by simp
  then have "\<forall>p\<in>set (charts d). fst p \<noteq> chartId" by force
  then have "filter (\<lambda>(k', c). k' \<noteq> chartId) (charts d) = charts d"
    by (auto simp: filter_id_conv)
  then have k1: "?others d1 = charts d" "chartId \<in> set (map fst (charts d1))"
    using ch1 by simp_all
  have k2: "?others d2 = charts d \<and> chartId \<in> set (map fst (charts d2))"
  proof (cases "truthy oTitle")
    case True
    then have "refChartUpdate chartId (\<lambda>c. c\<lparr> chartTitle := oTitle \<rparr>) d1 = Inr d2"
      using title by (simp add: whenTruthy_def refSurface_def)
    from refChartUpdate_charts [OF this] k1 show ?thesis by simp
  next
    case False
    then have "d2 = d1" using title by (simp add: whenTruthy_def)
    with k1 show ?thesis by simp
  qed
  have k3: "?others d' = charts d \<and> chartId \<in> set (map fst (charts d'))"
  proof (cases position)
    case None
    then have "d' = d2" using pos by simp
    with k2 show ?thesis by simp
  next
    case (Some q)
    obtain pLeft pTop pWidth pHeight where q: "q = (pLeft, pTop, pWidth, pHeight)"
      by (cases q) auto
    have "refChartUpdate chartId (\<lambda>c. c\<lparr> chartPosition := [pLeft, pTop, pWidth, pHeight] \<rparr>) d2 = Inr d'"
      using pos Some q by (simp add: refSurface_def)
    from refChartUpdate_charts [OF this] k2 show ?thesis by simp
  qed
  have "runInverse ?S undoOp d' = Inr (d'\<lparr> charts := charts d \<rparr>)"
    using k3 u by (simp add: refSurface_def refChartDelete_def)
  then show ?thesis by simp
qed


lemma refPivotAddHierarchy_pivotTables:
  assumes "refPivotAddHierarchy asRow k field x = Inr y"
  shows "filter (\<lambda>(k', p). k' \<noteq> k) (pivotTables y) = filter (\<lambda>(k', p). k' \<noteq> k) (pivotTables x)"
    and "map fst (pivotTables y) = map fst (pivotTables x)"
proof -
  let ?f = "\<lambda>q. if asRow then q\<lparr> pivotRowFields := pivotRowFields q @ [field] \<rparr>
                 else q\<lparr> pivotDataFields := pivotDataFields q @ [field] \<rparr>"
  have y: "y = x\<lparr> pivotTables := map (\<lambda>(k', p). if k' = k then (k', ?f p) else (k', p)) (pivotTables x) \<rparr>"
    using assms
    by (auto simp: refPivotAddHierarchy_def onRange_def split: option.splits if_splits)
  show "filter (\<lambda>(k', p). k' \<noteq> k) (pivotTables y) = filter (\<lambda>(k', p). k' \<noteq> k) (pivotTables x)"
    unfolding y by (simp add: filter_changed_key)
  show "map fst (pivotTables y) = map fst (pivotTables x)"
    unfolding y by (simp add: keys_changed_key del: map_map)
qed

lemma requestEach_pivotTables:
  "requestEach (refPivotAddHierarchy asRow k) fs x = Inr y \<Longrightarrow>
   filter (\<lambda>(k', p). k' \<noteq> k) (pivotTables y) = filter (\<lambda>(k', p). k' \<noteq> k) (pivotTables x)
   \<and> map fst (pivotTables y) = map fst (pivotTables x)"
proof (induction fs arbitrary: x)
  case Nil
  then show ?case by simp
next
  case (Cons f fs)
  from Cons.prems obtain x1 where
    s1: "refPivotAddHierarchy asRow k f x = Inr x1"
    and s2: "requestEach (refPivotAddHierarchy asRow k) fs x1 = Inr y"
    by (auto simp: andThen_Inr)
  from Cons.IH [OF s2] refPivotAddHierarchy_pivotTables [OF s1] show ?case by simp
qed

lemma createPivotTable_steps:
  assumes "createPivotTable S tgt opts d = Inr (d', undoOp)"
  shows "\<exists>name destination rowFields dataFields d1 pivotTableId d2.
      pivotTablesAdd S name tgt destination d = Inr (d1, pivotTableId)
    \<and> requestEach (pivotAddRowHierarchy S pivotTableId) rowFields d1 = Inr d2
    \<and> requestEach (pivotAddDataHierarchy S pivotTableId) dataFields d2 = Inr d'
    \<and> undoOp = UndoCreatePivotTable pivotTableId"
  using assms
  by (simp add: createPivotTable_def Let_def andThen_Inr split: prod.splits) blast

lemma refPivotTablesAdd_appends:
  assumes "refPivotTablesAdd name tgt destination d = Inr (d1, pivotTableId)"
  shows "pivotTableId = ''pivot'' @ decimal (nextId d)
         \<and> (\<exists>p0. pivotTables d1 = pivotTables d @ [(pivotTableId, p0)])"
  using assms
  by (auto simp: refPivotTablesAdd_def onRange_def Let_def
           split: option.splits if_splits jsval.splits)

lemma created_pivot_removed_alone:
  assumes c: "createPivotTable (refSurface calc) tgt opts d = Inr (d', undoOp)"
    and fresh: "''pivot'' @ decimal (nextId d) \<notin> set (map fst (pivotTables d))"
  shows "\<exists>d''. runInverse (refSurface calc) undoOp d' = Inr d'' \<and> pivotTables d'' = pivotTables d"
proof -
  let ?S = "refSurface calc"
  from createPivotTable_steps [OF c] obtain name destination rowFields dataFields d1 pivotTableId d2
    where add: "pivotTablesAdd ?S name tgt destination d = Inr (d1, pivotTableId)"
    and rows: "requestEach (pivotAddRowHierarchy ?S pivotTableId) rowFields d1 = Inr d2"
    and datas: "requestEach (pivotAddDataHierarchy ?S pivotTableId) dataFields d2 = Inr d'"
    and u: "undoOp = UndoCreatePivotTable pivotTableId"
    by blast
  let ?others = "\<lambda>x. filter (\<lambda>(k', p). k' \<noteq> pivotTableId) (pivotTables x)"
  from add have "refPivotTablesAdd name tgt destination d = Inr (d1, pivotTableId)"
    by (simp add: refSurface_def)
  from refPivotTablesAdd_appends [OF this] obtain p0 where
    id: "pivotTableId = ''pivot'' @ decimal (nextId d)"
    and p1: "pivotTables d1 = pivotTables d @ [(pivotTableId, p0)]"
    by blast
  have "pivotTableId \<notin> fst ` set (pivotTables d)" using fresh id by simp
  then have "\<forall>p\<in>set (pivotTables d). fst p \<noteq> pivotTableId" by force
  then have "filter (\<lambda>(k', p). k' \<noteq> pivotTableId) (pivotTables d) = pivotTables d"
    by (auto simp: filter_id_conv)
  then have k1: "?others d1 = pivotTables d" "pivotTableId \<in> set (map fst (pivotTables d1))"
    using p1 by simp_all
  have "requestEach (refPivotAddHierarchy True pivotTableId) rowFields d1 = Inr d2"
    using rows by (simp add: refSurface_def)
  from requestEach_pivotTables [OF this] k1
  have k2: "?others d2 = pivotTables d" "pivotTableId \<in> set (map fst (pivotTables d2))"
    by simp_all
  have "requestEach (refPivotAddHierarchy False pivotTableId) dataFields d2 = Inr d'"
    using datas by (simp add: refSurface_def)
  from requestEach_pivotTables [OF this] k2
  have k3: "?others d' = pivotTables d" "pivotTableId \<in> set (map fst (pivotTables d'))"
    by simp_all
  have "runInverse ?S undoOp d' = Inr (d'\<lparr> pivotTables := pivotTables d \<rparr>)"
    using k3 u by (simp add: refSurface_def refPivotTableDelete_def)
  then show ?thesis by simp
qed

text \<open>
  C8. When \<open>createChart\<close> (\<open>createPivotTable\<close>) succeeds, the inverse it returns holds
  the identifier that the host generated for the new object, and replaying it is the
  host's delete of the object with that identifier, whatever the target address was.
  What else such a delete touches is the host's. On the reference sheet, where the
  generated identifier is new to the collection, replaying the inverse on the document
  the handler left succeeds and leaves the collection of charts (pivot tables) exactly
  as it was before the creation: the created object is gone, every other one is
  untouched.
\<close>

theorem created_object_is_deleted_by_id:
  "(createChart S tgt opts d = Inr (d', undoOp) \<longrightarrow>
      (\<exists>oType d1 chartId.
          getProp opts ''type'' = Inr oType
        \<and> chartsAdd S (js_or oType (JStr ''ColumnClustered'')) tgt d = Inr (d1, chartId)
        \<and> undoOp = UndoCreateChart chartId
        \<and> (\<forall>d2. runInverse S undoOp d2 = chartDelete S chartId d2)))
   \<and> (createPivotTable S tgt opts d = Inr (d', undoOp) \<longrightarrow>
      (\<exists>oName oDestination d1 pivotTableId.
          getProp opts ''name'' = Inr oName \<and> getProp opts ''destination'' = Inr oDestination
        \<and> pivotTablesAdd S (js_or oName (JStr ''ManicePivotTable'')) tgt
             (js_or oDestination (JStr ''H1'')) d = Inr (d1, pivotTableId)
        \<and> undoOp = UndoCreatePivotTable pivotTableId
        \<and> (\<forall>d2. runInverse S undoOp d2 = pivotTableDelete S pivotTableId d2)))
   \<and> (createChart (refSurface calc) tgt opts sheet = Inr (sheet', undoOp)
        \<and> ''chart'' @ decimal (nextId sheet) \<notin> set (map fst (charts sheet)) \<longrightarrow>
      (\<exists>sheet''. runInverse (refSurface calc) undoOp sheet' = Inr sheet''
                \<and> charts sheet'' = charts sheet))
   \<and> (createPivotTable (refSurface calc) tgt opts sheet = Inr (sheet', undoOp)
        \<and> ''pivot'' @ decimal (nextId sheet) \<notin> set (map fst (pivotTables sheet)) \<longrightarrow>
      (\<exists>sheet''. runInverse (refSurface calc) undoOp sheet' = Inr sheet''
                \<and> pivotTables sheet'' = pivotTables sheet))"
proof -
  have chart: "createChart S tgt opts d = Inr (d', undoOp) \<longrightarrow>
      (\<exists>oType d1 chartId.
          getProp opts ''type'' = Inr oType
        \<and> chartsAdd S (js_or oType (JStr ''ColumnClustered'')) tgt d = Inr (d1, chartId)
        \<and> undoOp = UndoCreateChart chartId
        \<and> (\<forall>d2. runInverse S undoOp d2 = chartDelete S chartId d2))"
    by (auto simp: createChart_def Let_def andThen_Inr split: prod.splits)
  have pivot: "createPivotTable S tgt opts d = Inr (d', undoOp) \<longrightarrow>
      (\<exists>oName oDestination d1 pivotTableId.
          getProp opts ''name'' = Inr oName \<and> getProp opts ''destination'' = Inr oDestination
        \<and> pivotTablesAdd S (js_or oName (JStr ''ManicePivotTable'')) tgt
             (js_or oDestination (JStr ''H1'')) d = Inr (d1, pivotTableId)
        \<and> undoOp = UndoCreatePivotTable pivotTableId
        \<and> (\<forall>d2. runInverse S undoOp d2 = pivotTableDelete S pivotTableId d2))"
    by (auto simp: createPivotTable_def Let_def andThen_Inr split: prod.splits)
  show ?thesis
    using chart pivot created_chart_removed_alone [of calc tgt opts sheet sheet' undoOp]
      created_pivot_removed_alone [of calc tgt opts sheet sheet' undoOp]
    by blast
qed

theorem created_object_witness:
  "createChart (refSurface sampleCalc) ''A2:B2'' chartOptions sampleSheet =
     Inr (sampleSheet\<lparr> charts := charts sampleSheet @
             [(''chart8'', \<lparr> chartType = JStr ''Pie'', chartSource = ''A2:B2'',
                            chartTitle = JStr ''Share'',
                            chartPosition = [JNum 10, JNum 100, JNum 400, JNum 300] \<rparr>)],
           nextId := 9 \<rparr>,
          UndoCreateChart ''chart8'')
   \<and> map fst (charts sampleSheet) = [''chart7'']
   \<and> ''chart'' @ decimal (nextId sampleSheet) = ''chart8''
   \<and> runInverse (refSurface sampleCalc) (UndoCreateChart ''chart8'')
        (sampleSheet\<lparr> charts := charts sampleSheet @
             [(''chart8'', \<lparr> chartType = JStr ''Pie'', chartSource = ''A2:B2'',
                            chartTitle = JStr ''Share'',
                            chartPosition = [JNum 10, JNum 100, JNum 400, JNum 300] \<rparr>)],
           nextId := 9 \<rparr>) =
       Inr (sampleSheet\<lparr> nextId := 9 \<rparr>)
   \<and> createPivotTable (refSurface sampleCalc) ''A2:B2'' pivotOptions (sampleSheet\<lparr> pivotTables :=
          [(''pivot3'', \<lparr> pivotName = JStr ''Old'', pivotSource = ''A2:B2'',
              pivotDestination = JStr ''A3'', pivotRowFields = [], pivotDataFields = [] \<rparr>)] \<rparr>) =
     Inr (sampleSheet\<lparr> pivotTables :=
          [(''pivot3'', \<lparr> pivotName = JStr ''Old'', pivotSource = ''A2:B2'',
              pivotDestination = JStr ''A3'', pivotRowFields = [], pivotDataFields = [] \<rparr>),
           (''pivot8'', \<lparr> pivotName = JStr ''ByLabel'', pivotSource = ''A2:B2'',
              pivotDestination = JStr ''A3'', pivotRowFields = [JStr ''x''], pivotDataFields = [] \<rparr>)],
          nextId := 9 \<rparr>,
          UndoCreatePivotTable ''pivot8'')
   \<and> runInverse (refSurface sampleCalc) (UndoCreatePivotTable ''pivot8'')
        (sampleSheet\<lparr> pivotTables :=
          [(''pivot3'', \<lparr> pivotName = JStr ''Old'', pivotSource = ''A2:B2'',
              pivotDestination = JStr ''A3'', pivotRowFields = [], pivotDataFields = [] \<rparr>),
           (''pivot8'', \<lparr> pivotName = JStr ''ByLabel'', pivotSource = ''A2:B2'',
              pivotDestination = JStr ''A3'', pivotRowFields = [JStr ''x''], pivotDataFields = [] \<rparr>)],
          nextId := 9 \<rparr>) =
       Inr (sampleSheet\<lparr> pivotTables :=
          [(''pivot3'', \<lparr> pivotName = JStr ''Old'', pivotSource = ''A2:B2'',
              pivotDestination = JStr ''A3'', pivotRowFields = [], pivotDataFields = [] \<rparr>)],
          nextId := 9 \<rparr>)"
proof -
  let ?S = "refSurface sampleCalc"
  let ?c8 = "(''chart8'', \<lparr> chartType = JStr ''Pie'', chartSource = ''A2:B2'',
                            chartTitle = JStr ''Share'',
                            chartPosition = [JNum 10, JNum 100, JNum 400, JNum 300] \<rparr>)"
  let ?d1 = "sampleSheet\<lparr> charts := charts sampleSheet @ [?c8], nextId := 9 \<rparr>"
  let ?p3 = "(''pivot3'', \<lparr> pivotName = JStr ''Old'', pivotSource = ''A2:B2'',
              pivotDestination = JStr ''A3'', pivotRowFields = [], pivotDataFields = [] \<rparr>)"
  let ?p8 = "(''pivot8'', \<lparr> pivotName = JStr ''ByLabel'', pivotSource = ''A2:B2'',
              pivotDestination = JStr ''A3'', pivotRowFields = [JStr ''x''], pivotDataFields = [] \<rparr>)"
  let ?d0 = "sampleSheet\<lparr> pivotTables := [?p3] \<rparr>"
  let ?d2 = "sampleSheet\<lparr> pivotTables := [?p3, ?p8], nextId := 9 \<rparr>"
  have c: "createChart ?S ''A2:B2'' chartOptions sampleSheet = Inr (?d1, UndoCreateChart ''chart8'')"
    by code_simp
  have other: "map fst (charts sampleSheet) = [''chart7'']"
    by code_simp
  have next8: "''chart'' @ decimal (nextId sampleSheet) = ''chart8''"
    by code_simp
  have freshChart: "''chart'' @ decimal (nextId sampleSheet) \<notin> set (map fst (charts sampleSheet))"
    by code_simp
  have freshPivot: "''pivot'' @ decimal (nextId ?d0) \<notin> set (map fst (pivotTables ?d0))"
    by code_simp
  have cd: "chartDelete ?S ''chart8'' ?d1 = Inr (sampleSheet\<lparr> nextId := 9 \<rparr>)"
    by code_simp
  have p: "createPivotTable ?S ''A2:B2'' pivotOptions ?d0 = Inr (?d2, UndoCreatePivotTable ''pivot8'')"
    by code_simp
  have pd: "pivotTableDelete ?S ''pivot8'' ?d2 = Inr (sampleSheet\<lparr> pivotTables := [?p3], nextId := 9 \<rparr>)"
    by code_simp
  note chartCase = created_object_is_deleted_by_id
      [of ?S "''A2:B2''" chartOptions sampleSheet ?d1 "UndoCreateChart ''chart8''" sampleCalc sampleSheet ?d1]
  note pivotCase = created_object_is_deleted_by_id
      [of ?S "''A2:B2''" pivotOptions ?d0 ?d2 "UndoCreatePivotTable ''pivot8''" sampleCalc ?d0 ?d2]
  have "\<forall>d2. runInverse ?S (UndoCreateChart ''chart8'') d2 = chartDelete ?S ''chart8'' d2"
    using chartCase c by auto
  then have ci: "runInverse ?S (UndoCreateChart ''chart8'') ?d1 = Inr (sampleSheet\<lparr> nextId := 9 \<rparr>)"
    using cd by simp
  have "\<exists>sheet''. runInverse ?S (UndoCreateChart ''chart8'') ?d1 = Inr sheet''
                \<and> charts sheet'' = charts sampleSheet"
    using chartCase c freshChart by blast
  have "\<forall>d2. runInverse ?S (UndoCreatePivotTable ''pivot8'') d2 = pivotTableDelete ?S ''pivot8'' d2"
    using pivotCase p by auto
  then have pi: "runInverse ?S (UndoCreatePivotTable ''pivot8'') ?d2 =
      Inr (sampleSheet\<lparr> pivotTables := [?p3], nextId := 9 \<rparr>)"
    using pd by simp
  have "\<exists>sheet''. runInverse ?S (UndoCreatePivotTable ''pivot8'') ?d2 = Inr sheet''
                \<and> pivotTables sheet'' = pivotTables ?d0"
    using pivotCase p freshPivot by blast
  show ?thesis using c other next8 ci p pi by simp
qed

section \<open>The round trip of a batch and its undo\<close>






































lemma offGrid_update [simp]: "offGrid (d\<lparr> grid := g \<rparr>) = offGrid d"
  by (simp add: offGrid_def)



















































end
